theory Spec2Isabelle
  imports Main "HOL-Library.Word"
begin

section \<open>Values shared by the whole client\<close>

text \<open>
  Go strings and byte slices are sequences of bytes: \<^typ>\<open>string\<close>.
  Go's \<^verbatim>\<open>int\<close>, \<^verbatim>\<open>int64\<close> and \<^verbatim>\<open>uint64\<close> are 64-bit words
  (\<^verbatim>\<open>strconv.IntSize = 64\<close>); \<open>sint\<close> reads a word as signed, \<open>unat\<close> as unsigned,
  and \<open><\<close> on words is the unsigned comparison.
\<close>

type_synonym int64 = "64 word"
type_synonym uint64 = "64 word"
type_synonym byte = "8 word"

definition dquote :: char where
  "dquote = CHR 0x22"

text \<open>
  Errors. \<^verbatim>\<open>fmt.Errorf(format, args...)\<close> is kept as the call that made it: the
  format string and its arguments. \<open>NumError fn num err\<close> is \<^verbatim>\<open>*strconv.NumError\<close>;
  the remaining constructors are the errors of \<^verbatim>\<open>net/http\<close>, \<^verbatim>\<open>io/ioutil\<close> and
  \<^verbatim>\<open>encoding/json\<close>, which the client only passes on.
\<close>

datatype numerr = ErrSyntax | ErrRange

datatype error =
    Errorf string "fmtarg list"
  | NumError string string numerr
  | URLError string
  | ReadError string
  | SyntaxError
  | UnmarshalTypeError string string
and fmtarg = S string | E error

section \<open>strings.TrimLeft, strings.TrimRight with a one-byte cutset\<close>

text \<open>
  \<^verbatim>\<open>for len(s) > 0 && s[0] == c { s = s[1:] }\<close> and
  \<^verbatim>\<open>for len(s) > 0 && s[len(s)-1] == c { s = s[:len(s)-1] }\<close>.
\<close>

fun trimLeftByte :: "string \<Rightarrow> char \<Rightarrow> string" where
  "trimLeftByte [] c = []"
| "trimLeftByte (x # xs) c = (if x = c then trimLeftByte xs c else x # xs)"

function trimRightByte :: "string \<Rightarrow> char \<Rightarrow> string" where
  "trimRightByte s c = (if s \<noteq> [] \<and> last s = c then trimRightByte (butlast s) c else s)"
  by pat_completeness auto
termination
  by (relation "measure (\<lambda>(s, c). length s)") auto

declare trimRightByte.simps [simp del]

section \<open>strconv.ParseUint, strconv.ParseInt, strconv.Atoi (base 10, 64 bits)\<close>

definition syntaxError :: "string \<Rightarrow> string \<Rightarrow> error" where
  "syntaxError fn str = NumError fn str ErrSyntax"

definition rangeError :: "string \<Rightarrow> string \<Rightarrow> error" where
  "rangeError fn str = NumError fn str ErrRange"

definition maxUint64 :: uint64 where
  "maxUint64 = - 1"

text \<open>
  The digit switch of \<^verbatim>\<open>ParseUint\<close>: a decimal digit is its value, a letter is
  \<^verbatim>\<open>lower(c) - 'a' + 10\<close>, anything else is a syntax error (\<open>None\<close>).
  \<^verbatim>\<open>lower(c)\<close> is \<^verbatim>\<open>c | ('x' - 'X')\<close>.
\<close>

definition lower :: "byte \<Rightarrow> byte" where
  "lower c = or c 0x20"

definition digitVal :: "char \<Rightarrow> byte option" where
  "digitVal ch =
     (let c = (of_char ch :: byte) in
      if 0x30 \<le> c \<and> c \<le> 0x39 then Some (c - 0x30)
      else if 0x61 \<le> lower c \<and> lower c \<le> 0x7A then Some (lower c - 0x61 + 10)
      else None)"

text \<open>
  The loop of \<^verbatim>\<open>ParseUint(s, 10, 64)\<close> over the bytes of \<open>s\<close>, with the running
  value \<open>n\<close>. \<open>cutoff = maxUint64/10 + 1\<close>; \<open>maxVal = 1<<64 - 1\<close>.
  The result is the pair (value, error) the Go function returns.
\<close>

definition cutoff10 :: uint64 where
  "cutoff10 = maxUint64 div 10 + 1"

fun parseUint_loop :: "string \<Rightarrow> string \<Rightarrow> uint64 \<Rightarrow> uint64 \<times> error option" where
  "parseUint_loop s0 [] n = (n, None)"
| "parseUint_loop s0 (c # cs) n =
     (case digitVal c of
        None \<Rightarrow> (0, Some (syntaxError ''ParseUint'' s0))
      | Some d \<Rightarrow>
          if d \<ge> 10 then (0, Some (syntaxError ''ParseUint'' s0))
          else if n \<ge> cutoff10 then (maxUint64, Some (rangeError ''ParseUint'' s0))
          else
            (let n' = n * 10; n1 = n' + ucast d in
             if n1 < n' \<or> n1 > maxUint64 then (maxUint64, Some (rangeError ''ParseUint'' s0))
             else parseUint_loop s0 cs n1))"

definition ParseUint :: "string \<Rightarrow> uint64 \<times> error option" where
  "ParseUint s =
     (if s = [] then (0, Some (syntaxError ''ParseUint'' s))
      else parseUint_loop s s 0)"

definition isErrRange :: "error \<Rightarrow> bool" where
  "isErrRange e = (case e of NumError fn num ErrRange \<Rightarrow> True | _ \<Rightarrow> False)"

text \<open>
  \<^verbatim>\<open>ParseInt(s, 10, 0)\<close>: the sign is picked off, the rest goes through
  \<^verbatim>\<open>ParseUint\<close>, and the range is checked against \<open>cutoff = 1 << 63\<close>.
\<close>

definition ParseInt :: "string \<Rightarrow> int64 \<times> error option" where
  "ParseInt s =
     (if s = [] then (0, Some (syntaxError ''ParseInt'' s))
      else
        (let s0 = s;
             neg = (hd s = CHR ''-'');
             s1 = (if hd s = CHR ''+'' then tl s else if hd s = CHR ''-'' then tl s else s);
             (un, err) = ParseUint s1
         in if err \<noteq> None \<and> \<not> isErrRange (the err) then (0, Some (syntaxError ''ParseInt'' s0))
            else
              (let cutoff = (push_bit 63 1 :: uint64) in
               if \<not> neg \<and> un \<ge> cutoff then (cutoff - 1, Some (rangeError ''ParseInt'' s0))
               else if neg \<and> un > cutoff then (- cutoff, Some (rangeError ''ParseInt'' s0))
               else (if neg then - un else un, None))))"

text \<open>
  The fast path of \<^verbatim>\<open>Atoi\<close>: \<^verbatim>\<open>ch -= '0'; if ch > 9 { syntax error }; n = n*10 + int(ch)\<close>,
  in byte arithmetic. \<open>None\<close> is the syntax error.
\<close>

fun atoi_loop :: "string \<Rightarrow> int64 \<Rightarrow> int64 option" where
  "atoi_loop [] n = Some n"
| "atoi_loop (c # cs) n =
     (let ch = (of_char c :: byte) - 0x30 in
      if ch > 9 then None else atoi_loop cs (n * 10 + ucast ch))"

definition setFunc :: "string \<Rightarrow> error option \<Rightarrow> error option" where
  "setFunc fn err = (case err of Some (NumError f num e) \<Rightarrow> Some (NumError fn num e) | _ \<Rightarrow> err)"

definition Atoi :: "string \<Rightarrow> int64 \<times> error option" where
  "Atoi s =
     (let sLen = length s in
      if 0 < sLen \<and> sLen < 19 then
        (let s0 = s;
             s1 = (if hd s = CHR ''-'' \<or> hd s = CHR ''+'' then tl s else s)
         in if (hd s = CHR ''-'' \<or> hd s = CHR ''+'') \<and> length s1 < 1
            then (0, Some (syntaxError ''Atoi'' s0))
            else
              (case atoi_loop s1 0 of
                 None \<Rightarrow> (0, Some (syntaxError ''Atoi'' s0))
               | Some n \<Rightarrow> (if hd s0 = CHR ''-'' then - n else n, None)))
      else
        (let (i64, err) = ParseInt s in (i64, setFunc ''Atoi'' err)))"

section \<open>time.Unix and the timestamp codec\<close>

text \<open>
  \<^verbatim>\<open>time.Time\<close> holds \<open>wall\<close> (the nanoseconds, here always 0) and \<open>ext\<close>, the seconds
  since January 1 of year 1. \<^verbatim>\<open>time.Unix(sec, 0)\<close> is
  \<^verbatim>\<open>Time{0, sec + unixToInternal, Local}\<close> and \<^verbatim>\<open>t.Unix()\<close> is
  \<^verbatim>\<open>t.ext + internalToUnix\<close>; both additions are on \<^verbatim>\<open>int64\<close>.
\<close>

record time_Time =
  wall :: uint64
  ext :: int64

definition unixToInternal :: int64 where
  "unixToInternal = (1969 * 365 + 1969 div 4 - 1969 div 100 + 1969 div 400) * 86400"

definition internalToUnix :: int64 where
  "internalToUnix = - unixToInternal"

definition time_Unix :: "int64 \<Rightarrow> time_Time" where
  "time_Unix sec = \<lparr>wall = 0, ext = sec + unixToInternal\<rparr>"

definition Time_Unix :: "time_Time \<Rightarrow> int64" where
  "Time_Unix t = ext t + internalToUnix"

record caTime =
  Time :: time_Time

text \<open>
  \<^verbatim>\<open>func (m *caTime) UnmarshalJSON(b []byte) error\<close>: the result is the returned
  error and the receiver after the call.
\<close>

definition UnmarshalJSON :: "caTime \<Rightarrow> string \<Rightarrow> error option \<times> caTime" where
  "UnmarshalJSON m b =
     (let s = b;
          s = trimLeftByte s dquote;
          s = trimRightByte s dquote;
          (i, err) = Atoi s
      in if err \<noteq> None then (err, m)
         else (None, m\<lparr>Time := time_Unix i\<rparr>))"

section \<open>encoding/json: decoding a JSON document into the client's structs\<close>

text \<open>
  A JSON value as \<^verbatim>\<open>encoding/json\<close> sees it after its syntax check. Numbers keep
  their literal, strings keep the literal (with its quotes) and the unquoted content,
  arrays and objects keep their source text: an \<^verbatim>\<open>Unmarshaler\<close> such as
  \<^verbatim>\<open>caTime\<close> receives the source text of the value. Object keys are unquoted.
\<close>

datatype json =
    JNull
  | JBool bool
  | JNumber string
  | JString string string
  | JArray string "json list"
  | JObject string "(string \<times> json) list"

fun raw :: "json \<Rightarrow> string" where
  "raw JNull = ''null''"
| "raw (JBool b) = (if b then ''true'' else ''false'')"
| "raw (JNumber lit) = lit"
| "raw (JString lit s) = lit"
| "raw (JArray src xs) = src"
| "raw (JObject src kvs) = src"

fun kind :: "json \<Rightarrow> string" where
  "kind JNull = ''null''"
| "kind (JBool b) = ''bool''"
| "kind (JNumber lit) = ''number''"
| "kind (JString lit s) = ''string''"
| "kind (JArray src xs) = ''array''"
| "kind (JObject src kvs) = ''object''"

text \<open>
  The parts of the Go library that the client calls and that are not modelled further:
  the syntax check and tokenizer of \<^verbatim>\<open>encoding/json\<close> (\<open>None\<close>: not valid JSON)
  and whether \<^verbatim>\<open>url.Parse\<close> accepts a URL.
\<close>

record lib =
  json_scan :: "string \<Rightarrow> json option"
  url_ok :: "string \<Rightarrow> bool"

text \<open>
  A decoder stores a JSON value into a Go value of type \<open>'a\<close>. It takes the value,
  the current content of the target and the decoder's \<^verbatim>\<open>savedError\<close>; it returns the
  target, the \<^verbatim>\<open>savedError\<close> and the error that aborts decoding, if any.
  A type mismatch is saved (the first one is kept) and decoding goes on; the error of an
  \<^verbatim>\<open>UnmarshalJSON\<close> method aborts.
\<close>

type_synonym 'a decoder = "json \<Rightarrow> 'a \<Rightarrow> error option \<Rightarrow> 'a \<times> error option \<times> error option"

definition saveError :: "error option \<Rightarrow> error \<Rightarrow> error option" where
  "saveError sv e = (case sv of None \<Rightarrow> Some e | Some e0 \<Rightarrow> Some e0)"

definition decode_string :: "string decoder" where
  "decode_string j v sv =
     (case j of
        JNull \<Rightarrow> (v, sv, None)
      | JString lit s \<Rightarrow> (s, sv, None)
      | _ \<Rightarrow> (v, saveError sv (UnmarshalTypeError (kind j) ''string''), None))"

definition decode_int :: "int64 decoder" where
  "decode_int j v sv =
     (case j of
        JNull \<Rightarrow> (v, sv, None)
      | JNumber lit \<Rightarrow>
          (let (n, err) = ParseInt lit in
           if err \<noteq> None then (v, saveError sv (UnmarshalTypeError (''number '' @ lit) ''int''), None)
           else (n, sv, None))
      | _ \<Rightarrow> (v, saveError sv (UnmarshalTypeError (kind j) ''int''), None))"

definition decode_caTime :: "caTime decoder" where
  "decode_caTime j v sv = (case UnmarshalJSON v (raw j) of (err, v') \<Rightarrow> (v', sv, err))"

text \<open>
  Struct fields. A field is its Go name, its \<^verbatim>\<open>json\<close> tag (empty: none) and the
  decoder that stores into it. \<^verbatim>\<open>typeFields\<close> drops the fields that are not exported;
  a key selects the field with that name, or else the first one whose name is equal
  under case folding.
\<close>

type_synonym 'a field = "string \<times> string \<times> 'a decoder"

definition isExported :: "string \<Rightarrow> bool" where
  "isExported name = (name \<noteq> [] \<and> (65::nat) \<le> of_char (hd name) \<and> of_char (hd name) \<le> (90::nat))"

definition jsonName :: "'a field \<Rightarrow> string" where
  "jsonName f = (case f of (goName, tag, dec) \<Rightarrow> if tag \<noteq> [] then tag else goName)"

definition typeFields :: "'a field list \<Rightarrow> 'a field list" where
  "typeFields fs = filter (\<lambda>f. isExported (fst f)) fs"

definition toUpper :: "char \<Rightarrow> char" where
  "toUpper c = (if (97::nat) \<le> of_char c \<and> of_char c \<le> (122::nat) then char_of (of_char c - (32::nat)) else c)"

text \<open>
  \<^verbatim>\<open>foldName\<close>: ASCII letters in upper case; the Kelvin sign (U+212A, bytes E2 84 AA)
  folds to K and the long s (U+017F, bytes C5 BF) to S, the only characters outside ASCII
  that fold to an ASCII letter.
\<close>

function foldName :: "string \<Rightarrow> string" where
  "foldName s =
     (if s = [] then []
      else if take 3 s = [CHR 0xE2, CHR 0x84, CHR 0xAA] then CHR ''K'' # foldName (drop 3 s)
      else if take 2 s = [CHR 0xC5, CHR 0xBF] then CHR ''S'' # foldName (drop 2 s)
      else toUpper (hd s) # foldName (tl s))"
  by pat_completeness auto
termination
  by (relation "measure length") auto

declare foldName.simps [simp del]

definition findField :: "'a field list \<Rightarrow> string \<Rightarrow> 'a field option" where
  "findField fs key =
     (case find (\<lambda>f. jsonName f = key) (typeFields fs) of
        Some f \<Rightarrow> Some f
      | None \<Rightarrow> find (\<lambda>f. foldName (jsonName f) = foldName key) (typeFields fs))"

text \<open>
  An object is stored key by key, in the order of the document; a key that names no
  field is skipped. A literal \<^verbatim>\<open>null\<close> leaves a struct as it is; any other
  non-object is a type mismatch.
\<close>

fun decode_members :: "'a field list \<Rightarrow> (string \<times> json) list \<Rightarrow> 'a \<Rightarrow> error option \<Rightarrow> 'a \<times> error option \<times> error option" where
  "decode_members fs [] v sv = (v, sv, None)"
| "decode_members fs ((key, j) # kvs) v sv =
     (case findField fs key of
        None \<Rightarrow> decode_members fs kvs v sv
      | Some (goName, tag, dec) \<Rightarrow>
          (case dec j v sv of
             (v', sv', None) \<Rightarrow> decode_members fs kvs v' sv'
           | (v', sv', Some err) \<Rightarrow> (v', sv', Some err)))"

definition decode_struct :: "string \<Rightarrow> 'a field list \<Rightarrow> 'a decoder" where
  "decode_struct typ fs j v sv =
     (case j of
        JObject src kvs \<Rightarrow> decode_members fs kvs v sv
      | JNull \<Rightarrow> (v, sv, None)
      | _ \<Rightarrow> (v, saveError sv (UnmarshalTypeError (kind j) typ), None))"

text \<open>
  A slice: the elements of the array are decoded one by one, each into a zero element
  that is appended; \<^verbatim>\<open>null\<close> makes the slice nil (the empty list). This is the
  decoding of a slice that is empty when its key is met. When a key repeats within one
  object, \<^verbatim>\<open>encoding/json\<close> decodes the later array into the elements already in
  the slice; documents with a repeated slice key are outside this model.
\<close>

fun decode_elems :: "'a decoder \<Rightarrow> 'a \<Rightarrow> json list \<Rightarrow> 'a list \<Rightarrow> error option \<Rightarrow> 'a list \<times> error option \<times> error option" where
  "decode_elems dec zero [] acc sv = (acc, sv, None)"
| "decode_elems dec zero (x # xs) acc sv =
     (case dec x zero sv of
        (e, sv', None) \<Rightarrow> decode_elems dec zero xs (acc @ [e]) sv'
      | (e, sv', Some err) \<Rightarrow> (acc @ [e], sv', Some err))"

definition decode_slice :: "string \<Rightarrow> 'a decoder \<Rightarrow> 'a \<Rightarrow> 'a list decoder" where
  "decode_slice typ dec zero j v sv =
     (case j of
        JArray src xs \<Rightarrow> decode_elems dec zero xs [] sv
      | JNull \<Rightarrow> ([], sv, None)
      | _ \<Rightarrow> (v, saveError sv (UnmarshalTypeError (kind j) typ), None))"

text \<open>The decoder of one field of a struct, from the decoder of the field's type.\<close>

definition into :: "('a \<Rightarrow> 'b) \<Rightarrow> ('b \<Rightarrow> 'a \<Rightarrow> 'a) \<Rightarrow> 'b decoder \<Rightarrow> 'a decoder" where
  "into get put dec j v sv = (case dec j (get v) sv of (x, sv', err) \<Rightarrow> (put x v, sv', err))"

text \<open>
  \<^verbatim>\<open>json.Unmarshal(data, &v)\<close>: the value after the call and the returned error.
  Invalid JSON leaves \<open>v\<close> untouched; otherwise the aborting error is returned, or
  else the saved one.
\<close>

definition json_Unmarshal :: "lib \<Rightarrow> 'a decoder \<Rightarrow> string \<Rightarrow> 'a \<Rightarrow> 'a \<times> error option" where
  "json_Unmarshal l dec data v =
     (case json_scan l data of
        None \<Rightarrow> (v, Some SyntaxError)
      | Some j \<Rightarrow>
          (case dec j v None of
             (v', sv, Some err) \<Rightarrow> (v', Some err)
           | (v', sv, None) \<Rightarrow> (v', sv)))"

section \<open>The wire structs and their decoders\<close>

record caLogonResponse =
  CyberArkLogonResult :: string
  ErrorCode :: string
  ErrorMessage :: string

record caLogonRequest =
  Username :: string
  Password :: string
  UseRadiusAuthentication :: bool
  ConnectionNumber :: int64

record caIncomingRequest_Properties =
  Address :: string
  Safe :: string
  Name :: string
  LastUsedDate :: caTime
  LastUsedBy :: string
  Username :: string

record caIncomingRequest_AccountDetails =
  Properties :: caIncomingRequest_Properties

record caIncomingRequest =
  RequestID :: string
  RequestorUserName :: string
  UserReason :: string
  Operation :: string
  AccessFrom :: caTime
  AccessTo :: caTime
  AccountDetails :: caIncomingRequest_AccountDetails

record caIncomingRequestsResponse =
  IncomingRequests :: "caIncomingRequest list"
  Total :: int64

record caConfirmRequest =
  Reason :: string

record caConfirmResponse =
  ErrorCode :: string
  ErrorMessage :: string

record caMyRequest_Properties =
  Name :: string

record caMyRequest_AccountDetails =
  AccountID :: string
  Properties :: caMyRequest_Properties

record caMyRequest =
  Status :: int64
  StatusTitle :: string
  AccountDetails :: caMyRequest_AccountDetails

record caMyRequestsResponse =
  errorCode :: string
  errorMessage :: string
  MyRequests :: "caMyRequest list"

text \<open>The zero values \<^verbatim>\<open>T{}\<close>.\<close>

definition zero_Time :: time_Time where
  "zero_Time = \<lparr>wall = 0, ext = 0\<rparr>"

definition zero_caTime :: caTime where
  "zero_caTime = \<lparr>Time = zero_Time\<rparr>"

definition zero_caLogonResponse :: caLogonResponse where
  "zero_caLogonResponse =
     \<lparr>CyberArkLogonResult = [], caLogonResponse.ErrorCode = [], caLogonResponse.ErrorMessage = []\<rparr>"


definition zero_caIncomingRequest :: caIncomingRequest where
  "zero_caIncomingRequest =
     \<lparr>RequestID = [], RequestorUserName = [], UserReason = [], Operation = [],
      AccessFrom = zero_caTime, AccessTo = zero_caTime,
      caIncomingRequest.AccountDetails =
        \<lparr>caIncomingRequest_AccountDetails.Properties =
           \<lparr>Address = [], Safe = [], caIncomingRequest_Properties.Name = [],
            LastUsedDate = zero_caTime, LastUsedBy = [],
            caIncomingRequest_Properties.Username = []\<rparr>\<rparr>\<rparr>"

definition zero_caIncomingRequestsResponse :: caIncomingRequestsResponse where
  "zero_caIncomingRequestsResponse = \<lparr>IncomingRequests = [], Total = 0\<rparr>"

definition zero_caMyRequest :: caMyRequest where
  "zero_caMyRequest =
     \<lparr>Status = 0, StatusTitle = [],
      caMyRequest.AccountDetails =
        \<lparr>AccountID = [],
         caMyRequest_AccountDetails.Properties = \<lparr>caMyRequest_Properties.Name = []\<rparr>\<rparr>\<rparr>"

definition zero_caMyRequestsResponse :: caMyRequestsResponse where
  "zero_caMyRequestsResponse = \<lparr>errorCode = [], errorMessage = [], MyRequests = []\<rparr>"

text \<open>
  The field tables, one entry per field of the Go struct in the order of declaration:
  Go name, \<^verbatim>\<open>json\<close> tag, decoder.
\<close>

definition fields_caLogonResponse :: "caLogonResponse field list" where
  "fields_caLogonResponse =
     [(''CyberArkLogonResult'', ''CyberArkLogonResult'',
         into CyberArkLogonResult (\<lambda>x v. v\<lparr>CyberArkLogonResult := x\<rparr>) decode_string),
      (''ErrorCode'', [],
         into caLogonResponse.ErrorCode (\<lambda>x v. v\<lparr>caLogonResponse.ErrorCode := x\<rparr>) decode_string),
      (''ErrorMessage'', [],
         into caLogonResponse.ErrorMessage (\<lambda>x v. v\<lparr>caLogonResponse.ErrorMessage := x\<rparr>) decode_string)]"

definition decode_caLogonResponse :: "caLogonResponse decoder" where
  "decode_caLogonResponse = decode_struct ''main.caLogonResponse'' fields_caLogonResponse"



definition fields_caIncomingRequest_Properties :: "caIncomingRequest_Properties field list" where
  "fields_caIncomingRequest_Properties =
     [(''Address'', [], into Address (\<lambda>x v. v\<lparr>Address := x\<rparr>) decode_string),
      (''Safe'', [], into Safe (\<lambda>x v. v\<lparr>Safe := x\<rparr>) decode_string),
      (''Name'', [],
         into caIncomingRequest_Properties.Name
           (\<lambda>x v. v\<lparr>caIncomingRequest_Properties.Name := x\<rparr>) decode_string),
      (''LastUsedDate'', [], into LastUsedDate (\<lambda>x v. v\<lparr>LastUsedDate := x\<rparr>) decode_caTime),
      (''LastUsedBy'', [], into LastUsedBy (\<lambda>x v. v\<lparr>LastUsedBy := x\<rparr>) decode_string),
      (''Username'', [],
         into caIncomingRequest_Properties.Username
           (\<lambda>x v. v\<lparr>caIncomingRequest_Properties.Username := x\<rparr>) decode_string)]"

definition fields_caIncomingRequest_AccountDetails :: "caIncomingRequest_AccountDetails field list" where
  "fields_caIncomingRequest_AccountDetails =
     [(''Properties'', [],
         into caIncomingRequest_AccountDetails.Properties
           (\<lambda>x v. v\<lparr>caIncomingRequest_AccountDetails.Properties := x\<rparr>)
           (decode_struct
              ''struct { Address string; Safe string; Name string; LastUsedDate main.caTime; LastUsedBy string; Username string }''
              fields_caIncomingRequest_Properties))]"

definition fields_caIncomingRequest :: "caIncomingRequest field list" where
  "fields_caIncomingRequest =
     [(''RequestID'', [], into RequestID (\<lambda>x v. v\<lparr>RequestID := x\<rparr>) decode_string),
      (''RequestorUserName'', [],
         into RequestorUserName (\<lambda>x v. v\<lparr>RequestorUserName := x\<rparr>) decode_string),
      (''UserReason'', [], into UserReason (\<lambda>x v. v\<lparr>UserReason := x\<rparr>) decode_string),
      (''Operation'', [], into Operation (\<lambda>x v. v\<lparr>Operation := x\<rparr>) decode_string),
      (''AccessFrom'', [], into AccessFrom (\<lambda>x v. v\<lparr>AccessFrom := x\<rparr>) decode_caTime),
      (''AccessTo'', [], into AccessTo (\<lambda>x v. v\<lparr>AccessTo := x\<rparr>) decode_caTime),
      (''AccountDetails'', [],
         into caIncomingRequest.AccountDetails
           (\<lambda>x v. v\<lparr>caIncomingRequest.AccountDetails := x\<rparr>)
           (decode_struct
              ''struct { Properties struct { Address string; Safe string; Name string; LastUsedDate main.caTime; LastUsedBy string; Username string } }''
              fields_caIncomingRequest_AccountDetails))]"

definition decode_caIncomingRequest :: "caIncomingRequest decoder" where
  "decode_caIncomingRequest = decode_struct ''main.caIncomingRequest'' fields_caIncomingRequest"

definition fields_caIncomingRequestsResponse :: "caIncomingRequestsResponse field list" where
  "fields_caIncomingRequestsResponse =
     [(''IncomingRequests'', [],
         into IncomingRequests (\<lambda>x v. v\<lparr>IncomingRequests := x\<rparr>)
           (decode_slice ''[]main.caIncomingRequest'' decode_caIncomingRequest zero_caIncomingRequest)),
      (''Total'', [], into Total (\<lambda>x v. v\<lparr>Total := x\<rparr>) decode_int)]"

definition decode_caIncomingRequestsResponse :: "caIncomingRequestsResponse decoder" where
  "decode_caIncomingRequestsResponse =
     decode_struct ''main.caIncomingRequestsResponse'' fields_caIncomingRequestsResponse"

definition fields_caMyRequest_Properties :: "caMyRequest_Properties field list" where
  "fields_caMyRequest_Properties =
     [(''Name'', [],
         into caMyRequest_Properties.Name (\<lambda>x v. v\<lparr>caMyRequest_Properties.Name := x\<rparr>) decode_string)]"

definition fields_caMyRequest_AccountDetails :: "caMyRequest_AccountDetails field list" where
  "fields_caMyRequest_AccountDetails =
     [(''AccountID'', [], into AccountID (\<lambda>x v. v\<lparr>AccountID := x\<rparr>) decode_string),
      (''Properties'', [],
         into caMyRequest_AccountDetails.Properties
           (\<lambda>x v. v\<lparr>caMyRequest_AccountDetails.Properties := x\<rparr>)
           (decode_struct ''struct { Name string }'' fields_caMyRequest_Properties))]"

definition fields_caMyRequest :: "caMyRequest field list" where
  "fields_caMyRequest =
     [(''Status'', [], into Status (\<lambda>x v. v\<lparr>Status := x\<rparr>) decode_int),
      (''StatusTitle'', [], into StatusTitle (\<lambda>x v. v\<lparr>StatusTitle := x\<rparr>) decode_string),
      (''AccountDetails'', [],
         into caMyRequest.AccountDetails (\<lambda>x v. v\<lparr>caMyRequest.AccountDetails := x\<rparr>)
           (decode_struct ''struct { AccountID string; Properties struct { Name string } }''
              fields_caMyRequest_AccountDetails))]"

definition decode_caMyRequest :: "caMyRequest decoder" where
  "decode_caMyRequest = decode_struct ''main.caMyRequest'' fields_caMyRequest"

definition fields_caMyRequestsResponse :: "caMyRequestsResponse field list" where
  "fields_caMyRequestsResponse =
     [(''errorCode'', ''ErrorCode'', into errorCode (\<lambda>x v. v\<lparr>errorCode := x\<rparr>) decode_string),
      (''errorMessage'', ''ErrorMessage'',
         into errorMessage (\<lambda>x v. v\<lparr>errorMessage := x\<rparr>) decode_string),
      (''MyRequests'', [],
         into MyRequests (\<lambda>x v. v\<lparr>MyRequests := x\<rparr>)
           (decode_slice ''[]main.caMyRequest'' decode_caMyRequest zero_caMyRequest))]"

definition decode_caMyRequestsResponse :: "caMyRequestsResponse decoder" where
  "decode_caMyRequestsResponse =
     decode_struct ''main.caMyRequestsResponse'' fields_caMyRequestsResponse"

section \<open>net/http as the client uses it\<close>

text \<open>
  A request body is the JSON encoding of one of the two payload structs;
  \<^verbatim>\<open>json.Marshal\<close> cannot fail on them (strings, a bool and an int), so it always
  returns the encoding, kept here as the struct it encodes.
\<close>

datatype payload = JSON_caLogonRequest caLogonRequest | JSON_caConfirmRequest caConfirmRequest

definition json_Marshal_caLogonRequest :: "caLogonRequest \<Rightarrow> error + payload" where
  "json_Marshal_caLogonRequest p = Inr (JSON_caLogonRequest p)"


text \<open>
  A request: method, the URL handed to \<^verbatim>\<open>http.NewRequest\<close>, the query parameters the
  client adds to it, the headers and the body. A response: the status code and what
  \<^verbatim>\<open>ioutil.ReadAll\<close> gets from the body (the bytes, or a read error).
\<close>

record http_Request =
  Method :: string
  URL :: string
  Query :: "(string \<times> string) list"
  Header :: "(string \<times> string) list"
  ReqBody :: "payload option"

record http_Response =
  StatusCode :: int
  Body :: "error + string"

text \<open>
  The HTTP client. \<open>RoundTrip\<close> is everything beyond the client: it answers a request,
  given the requests issued before it, with a response or with the message of a
  transport failure. \<^verbatim>\<open>Client.Do\<close> returns every failure as a \<^verbatim>\<open>*url.Error\<close>.
  \<open>Sent\<close> records the requests issued through \<^verbatim>\<open>Client.Do\<close>, in order.
\<close>

record http_Client =
  RoundTrip :: "http_Request list \<Rightarrow> http_Request \<Rightarrow> string + http_Response"
  Sent :: "http_Request list"

definition http_NewRequest :: "lib \<Rightarrow> string \<Rightarrow> string \<Rightarrow> payload option \<Rightarrow> error + http_Request" where
  "http_NewRequest l method url body =
     (if url_ok l url
      then Inr \<lparr>Method = method, URL = url, Query = [], Header = [], ReqBody = body\<rparr>
      else Inl (URLError url))"

definition Header_Add :: "http_Request \<Rightarrow> string \<Rightarrow> string \<Rightarrow> http_Request" where
  "Header_Add req key val = req\<lparr>Header := Header req @ [(key, val)]\<rparr>"

definition Header_Set :: "http_Request \<Rightarrow> string \<Rightarrow> string \<Rightarrow> http_Request" where
  "Header_Set req key val = req\<lparr>Header := filter (\<lambda>kv. fst kv \<noteq> key) (Header req) @ [(key, val)]\<rparr>"

definition Query_Add :: "http_Request \<Rightarrow> string \<Rightarrow> string \<Rightarrow> http_Request" where
  "Query_Add req key val = req\<lparr>Query := Query req @ [(key, val)]\<rparr>"

definition Client_Do :: "http_Client \<Rightarrow> http_Request \<Rightarrow> (error + http_Response) \<times> http_Client" where
  "Client_Do c req =
     ((case RoundTrip c (Sent c) req of Inl msg \<Rightarrow> Inl (URLError msg) | Inr resp \<Rightarrow> Inr resp),
      c\<lparr>Sent := Sent c @ [req]\<rparr>)"

definition Client_Post :: "lib \<Rightarrow> http_Client \<Rightarrow> string \<Rightarrow> string \<Rightarrow> payload \<Rightarrow> (error + http_Response) \<times> http_Client" where
  "Client_Post l c url contentType body =
     (case http_NewRequest l ''POST'' url (Some body) of
        Inl err \<Rightarrow> (Inl err, c)
      | Inr req \<Rightarrow> Client_Do c (Header_Set req ''Content-Type'' contentType))"

section \<open>The session client\<close>

record caAPI =
  Client :: http_Client
  Base :: string
  LogonKey :: string

text \<open>
  \<^verbatim>\<open>func (api *caAPI) Login(username, password string) error\<close>. Every operation
  returns what the Go method returns, paired with the session after the call.
\<close>

definition Login :: "lib \<Rightarrow> caAPI \<Rightarrow> string \<Rightarrow> string \<Rightarrow> error option \<times> caAPI" where
  "Login l api username password =
     (let url = Base api @ ''/PasswordVault/WebServices/auth/Cyberark/CyberArkAuthenticationService.svc/Logon'';
          p = \<lparr>caLogonRequest.Username = username, Password = password,
               UseRadiusAuthentication = False, ConnectionNumber = 1\<rparr>
      in case json_Marshal_caLogonRequest p of
           Inl err \<Rightarrow> (Some (Errorf ''unable to unmarshal login request: %s'' [E err]), api)
         | Inr b \<Rightarrow>
             (case Client_Post l (Client api) url ''application/json'' b of
                (Inl err, c) \<Rightarrow>
                  (Some (Errorf (''unable to create a POST request to '' @ [CHR 0x27] @ ''%s'' @ [CHR 0x27] @ '': %s'')
                           [S url, E err]),
                   api\<lparr>Client := c\<rparr>)
              | (Inr httpResponse, c) \<Rightarrow>
                  (case Body httpResponse of
                     Inl err \<Rightarrow> (Some (Errorf ''whoops'' []), api\<lparr>Client := c\<rparr>)
                   | Inr body \<Rightarrow>
                       (case json_Unmarshal l decode_caLogonResponse body zero_caLogonResponse of
                          (logonResult, Some err) \<Rightarrow> (Some err, api\<lparr>Client := c\<rparr>)
                        | (logonResult, None) \<Rightarrow>
                            if caLogonResponse.ErrorCode logonResult \<noteq> []
                            then (Some (Errorf ''%s (%s)''
                                          [S (caLogonResponse.ErrorCode logonResult),
                                           S (caLogonResponse.ErrorMessage logonResult)]),
                                  api\<lparr>Client := c\<rparr>)
                            else (None, api\<lparr>Client := c, LogonKey := CyberArkLogonResult logonResult\<rparr>)))))"

definition Logout :: "lib \<Rightarrow> caAPI \<Rightarrow> error option \<times> caAPI" where
  "Logout l api =
     (if LogonKey api = [] then (Some (Errorf ''no logon key exists - unable to logout'' []), api)
      else
        (let logoff = Base api @ ''/PasswordVault/WebServices/auth/Cyberark/CyberArkAuthenticationService.svc/Logoff''
         in case http_NewRequest l ''POST'' logoff None of
              Inl err \<Rightarrow> (Some err, api)
            | Inr req \<Rightarrow>
                (case Client_Do (Client api) (Header_Add req ''Authorization'' (LogonKey api)) of
                   (Inl err, c) \<Rightarrow> (Some err, api\<lparr>Client := c\<rparr>)
                 | (Inr resp, c) \<Rightarrow> (None, api\<lparr>Client := c\<rparr>))))"

definition IncomingRequests :: "lib \<Rightarrow> caAPI \<Rightarrow> (caIncomingRequestsResponse \<times> error option) \<times> caAPI" where
  "IncomingRequests l api =
     (let response = zero_caIncomingRequestsResponse in
      if LogonKey api = [] then ((response, Some (Errorf ''no logon key exists'' [])), api)
      else
        (let url = Base api @ ''/PasswordVault/API/IncomingRequests'' in
         case http_NewRequest l ''GET'' url None of
           Inl err \<Rightarrow> ((response, Some err), api)
         | Inr httpReq \<Rightarrow>
             (let httpReq = Header_Add httpReq ''Authorization'' (LogonKey api);
                  httpReq = Query_Add httpReq ''onlywaiting'' ''true'';
                  httpReq = Query_Add httpReq ''expired'' ''false''
              in case Client_Do (Client api) httpReq of
                   (Inl err, c) \<Rightarrow> ((response, Some err), api\<lparr>Client := c\<rparr>)
                 | (Inr httpResponse, c) \<Rightarrow>
                     (case Body httpResponse of
                        Inl err \<Rightarrow> ((response, Some err), api\<lparr>Client := c\<rparr>)
                      | Inr bytes \<Rightarrow>
                          (json_Unmarshal l decode_caIncomingRequestsResponse bytes response,
                           api\<lparr>Client := c\<rparr>)))))"


definition MyRequests :: "lib \<Rightarrow> caAPI \<Rightarrow> (caMyRequestsResponse \<times> error option) \<times> caAPI" where
  "MyRequests l api =
     (let url = Base api @ ''/PasswordVault/API/MyRequests'' in
      case http_NewRequest l ''GET'' url None of
        Inl err \<Rightarrow> ((zero_caMyRequestsResponse, Some err), api)
      | Inr httpReq \<Rightarrow>
          (let httpReq = Header_Set httpReq ''Authorization'' (LogonKey api);
               httpReq = Query_Add httpReq ''onlywaiting'' ''false'';
               httpReq = Query_Add httpReq ''expired'' ''false''
           in case Client_Do (Client api) httpReq of
                (Inl err, c) \<Rightarrow> ((zero_caMyRequestsResponse, Some err), api\<lparr>Client := c\<rparr>)
              | (Inr httpResponse, c) \<Rightarrow>
                  (case Body httpResponse of
                     Inl err \<Rightarrow> ((zero_caMyRequestsResponse, Some err), api\<lparr>Client := c\<rparr>)
                   | Inr respBody \<Rightarrow>
                       (case json_Unmarshal l decode_caMyRequestsResponse respBody zero_caMyRequestsResponse of
                          (myReqs, Some err) \<Rightarrow> ((zero_caMyRequestsResponse, Some err), api\<lparr>Client := c\<rparr>)
                        | (myReqs, None) \<Rightarrow>
                            if errorCode myReqs \<noteq> []
                            then ((zero_caMyRequestsResponse,
                                   Some (Errorf ''%s (%s)'' [S (errorCode myReqs), S (errorMessage myReqs)])),
                                  api\<lparr>Client := c\<rparr>)
                            else ((myReqs, None), api\<lparr>Client := c\<rparr>)))))"

definition GetPassword :: "lib \<Rightarrow> caAPI \<Rightarrow> caMyRequest \<Rightarrow> (string \<times> error option) \<times> caAPI" where
  "GetPassword l api req =
     (let accID = AccountID (caMyRequest.AccountDetails req);
          url = Base api @ ''/PasswordVault/WebServices/PIMServices.svc/Accounts/'' @ accID @ ''/Credentials''
      in case http_NewRequest l ''GET'' url None of
           Inl err \<Rightarrow> (([], Some err), api)
         | Inr httpReq \<Rightarrow>
             (case Client_Do (Client api) (Header_Set httpReq ''Authorization'' (LogonKey api)) of
                (Inl err, c) \<Rightarrow> (([], Some err), api\<lparr>Client := c\<rparr>)
              | (Inr httpResponse, c) \<Rightarrow>
                  (case Body httpResponse of
                     Inl err \<Rightarrow> (([], Some err), api\<lparr>Client := c\<rparr>)
                   | Inr bytes \<Rightarrow> ((bytes, None), api\<lparr>Client := c\<rparr>))))"

section \<open>The command line's batch retrieval (main.go)\<close>

text \<open>
  The process writes to standard output and standard error; a written item is the
  \<^verbatim>\<open>fmt\<close> call that wrote it. \<^verbatim>\<open>main\<close> starts from the session
  \<^verbatim>\<open>caAPI{}\<close> with \<open>Base\<close> and \<open>Client\<close> set.
\<close>

datatype print = Println "fmtarg list" | Printf string "fmtarg list"

record console =
  stdout :: "print list"
  stderr :: "print list"

definition new_caAPI :: "string \<Rightarrow> http_Client \<Rightarrow> caAPI" where
  "new_caAPI base client = \<lparr>Client = client, Base = base, LogonKey = []\<rparr>"

text \<open>
  The loop of \<^verbatim>\<open>retrieve\<close>:
  \<^verbatim>\<open>for _, r := range reqs.MyRequests { passwd, err := ca.GetPassword(r); if err != nil { continue }; fmt.Printf(...) }\<close>.
\<close>

fun retrieve_loop :: "lib \<Rightarrow> caMyRequest list \<Rightarrow> caAPI \<Rightarrow> console \<Rightarrow> caAPI \<times> console" where
  "retrieve_loop l [] ca con = (ca, con)"
| "retrieve_loop l (r # rs) ca con =
     (case GetPassword l ca r of
        ((passwd, Some err), ca') \<Rightarrow> retrieve_loop l rs ca' con
      | ((passwd, None), ca') \<Rightarrow>
          retrieve_loop l rs ca'
            (con\<lparr>stdout := stdout con @
               [Printf (''%s = %s'' @ [CHR 0x0A])
                  [S (caMyRequest_Properties.Name
                        (caMyRequest_AccountDetails.Properties (caMyRequest.AccountDetails r))),
                   S passwd]]\<rparr>))"

text \<open>\<^verbatim>\<open>retrieve\<close>: the exit code if the process exits here, the session and the console.\<close>

definition retrieve :: "lib \<Rightarrow> caAPI \<Rightarrow> console \<Rightarrow> int option \<times> caAPI \<times> console" where
  "retrieve l ca con =
     (case MyRequests l ca of
        ((reqs, Some err), ca') \<Rightarrow> (Some 1, ca', con\<lparr>stdout := stdout con @ [Println [E err]]\<rparr>)
      | ((reqs, None), ca') \<Rightarrow>
          if length (caMyRequestsResponse.MyRequests reqs) = 0
          then (Some 0, ca', con\<lparr>stdout := stdout con @ [Println [S ''There are no requests.'']]\<rparr>)
          else (case retrieve_loop l (caMyRequestsResponse.MyRequests reqs) ca' con of (ca'', con') \<Rightarrow> (None, ca'', con')))"

section \<open>Notions used in the statements\<close>

text \<open>
  The decimal numeral of an integer, as \<^verbatim>\<open>strconv.Itoa\<close> and a JSON encoder write it:
  a minus sign for a negative number, then the digits without leading zeros.
\<close>

function digits10 :: "nat \<Rightarrow> string" where
  "digits10 n = (if n < 10 then [char_of (48 + n)] else digits10 (n div 10) @ [char_of (48 + n mod 10)])"
  by pat_completeness auto
termination
  by (relation "measure id") auto

declare digits10.simps [simp del]

definition Itoa :: "int \<Rightarrow> string" where
  "Itoa i = (if i < 0 then CHR ''-'' # digits10 (nat (- i)) else digits10 (nat i))"

definition quoted :: "string \<Rightarrow> string" where
  "quoted s = [dquote] @ s @ [dquote]"

text \<open>
  A base-10 integer in the sense of \<^verbatim>\<open>strconv\<close>: an optional sign \<open>+\<close> or \<open>-\<close>
  followed by one or more decimal digits.
\<close>

definition isDigit :: "char \<Rightarrow> bool" where
  "isDigit c = ((48::nat) \<le> of_char c \<and> of_char c \<le> (57::nat))"

definition base10_integer :: "string \<Rightarrow> bool" where
  "base10_integer s =
     (case s of
        [] \<Rightarrow> False
      | c # cs \<Rightarrow>
          if c = CHR ''+'' \<or> c = CHR ''-'' then cs \<noteq> [] \<and> list_all isDigit cs
          else list_all isDigit s)"

text \<open>What \<^verbatim>\<open>UnmarshalJSON\<close> hands to \<^verbatim>\<open>strconv.Atoi\<close>: the input without its quotes.\<close>

definition unquoted :: "string \<Rightarrow> string" where
  "unquoted b = trimRightByte (trimLeftByte b dquote) dquote"

text \<open>
  What a call did to the network: the requests issued between two states of the session,
  and the transport's answer to the first request issued from a state.
\<close>

definition issued :: "caAPI \<Rightarrow> caAPI \<Rightarrow> http_Request list" where
  "issued api api' = drop (length (Sent (Client api))) (Sent (Client api'))"

definition answer :: "caAPI \<Rightarrow> http_Request \<Rightarrow> string + http_Response" where
  "answer api req = RoundTrip (Client api) (Sent (Client api)) req"

section \<open>A sample vault\<close>

text \<open>
  A vault that the concrete instances below run against. It accepts the password
  \<open>hunter2\<close> and issues the token \<open>AAEAAA\<close>; it denies any other password with an
  error envelope, which for the password \<open>mistyped\<close> holds a number where the message
  should be; with the token the caller has two
  requests of their own, for the accounts 11 (whose credential request fails in transport)
  and 22; any other token gets an error envelope with status 200. One request is incoming,
  with the timestamps of the repository's test (one of them quoted). Incoming request 7 is
  confirmed with status 500 and the body \<open>{}\<close>, request 8 with status 404 and an error
  envelope, request 9 with status 502 and a body that is not JSON.
\<close>

definition sample_base :: string where
  "sample_base = ''https://pwv.example''"

definition body_logon_ok :: string where
  \<open>body_logon_ok = ''{"CyberArkLogonResult":"AAEAAA"}''\<close>

definition body_logon_denied :: string where
  \<open>body_logon_denied = ''{"ErrorCode":"ITATS004E","ErrorMessage":"Authentication failure"}''\<close>

definition body_logon_mistyped :: string where
  \<open>body_logon_mistyped = ''{"ErrorCode":"ITATS004E","ErrorMessage":42}''\<close>

definition body_my_requests :: string where
  \<open>body_my_requests = ''{"MyRequests":[{"AccountDetails":{"AccountID":"11","Properties":{"Name":"root@db1"}}},{"AccountDetails":{"AccountID":"22","Properties":{"Name":"root@db2"}}}]}''\<close>

definition body_my_requests_error :: string where
  \<open>body_my_requests_error = ''{"ErrorCode":"ITATS001E","ErrorMessage":"denied","MyRequests":[]}''\<close>

definition body_confirm_error :: string where
  \<open>body_confirm_error = ''{"ErrorCode":"PASWS027E","ErrorMessage":"not found"}''\<close>

definition body_incoming :: string where
  \<open>body_incoming = ''{"IncomingRequests":[{"RequestID":"7","RequestorUserName":"alice","AccessFrom":1543388400,"AccessTo":"1543600800","AccountDetails":{"Properties":{"Name":"root@db1","LastUsedDate":1543404976}}}],"Total":1}''\<close>

definition incoming_json :: json where
  \<open>incoming_json =
     JObject body_incoming
       [(''IncomingRequests'',
         JArray (take 173 (drop 20 body_incoming))
           [JObject (take 171 (drop 21 body_incoming))
              [(''RequestID'', JString (quoted ''7'') ''7''),
               (''RequestorUserName'', JString (quoted ''alice'') ''alice''),
               (''AccessFrom'', JNumber ''1543388400''),
               (''AccessTo'', JString (quoted ''1543600800'') ''1543600800''),
               (''AccountDetails'',
                JObject ''{"Properties":{"Name":"root@db1","LastUsedDate":1543404976}}''
                  [(''Properties'',
                    JObject ''{"Name":"root@db1","LastUsedDate":1543404976}''
                      [(''Name'', JString (quoted ''root@db1'') ''root@db1''),
                       (''LastUsedDate'', JNumber ''1543404976'')])])]]),
        (''Total'', JNumber ''1'')]\<close>

definition my_request_json :: "string \<Rightarrow> string \<Rightarrow> json" where
  \<open>my_request_json acc name =
     JObject (''{"AccountDetails":{"AccountID":"'' @ acc @ ''","Properties":{"Name":"'' @ name @ ''"}}}'')
       [(''AccountDetails'',
         JObject (''{"AccountID":"'' @ acc @ ''","Properties":{"Name":"'' @ name @ ''"}}'')
           [(''AccountID'', JString (quoted acc) acc),
            (''Properties'',
             JObject (''{"Name":"'' @ name @ ''"}'') [(''Name'', JString (quoted name) name)])])]\<close>

definition sample_scan :: "string \<Rightarrow> json option" where
  \<open>sample_scan data =
     (if data = body_logon_ok
        then Some (JObject data [(''CyberArkLogonResult'', JString (quoted ''AAEAAA'') ''AAEAAA'')])
      else if data = body_logon_denied
        then Some (JObject data
               [(''ErrorCode'', JString (quoted ''ITATS004E'') ''ITATS004E''),
                (''ErrorMessage'', JString (quoted ''Authentication failure'') ''Authentication failure'')])
      else if data = body_logon_mistyped
        then Some (JObject data
               [(''ErrorCode'', JString (quoted ''ITATS004E'') ''ITATS004E''),
                (''ErrorMessage'', JNumber ''42'')])
      else if data = body_my_requests
        then Some (JObject data
               [(''MyRequests'',
                 JArray (drop 14 (butlast data))
                   [my_request_json ''11'' ''root@db1'', my_request_json ''22'' ''root@db2''])])
      else if data = body_my_requests_error
        then Some (JObject data
               [(''ErrorCode'', JString (quoted ''ITATS001E'') ''ITATS001E''),
                (''ErrorMessage'', JString (quoted ''denied'') ''denied''),
                (''MyRequests'', JArray ''[]'' [])])
      else if data = body_confirm_error
        then Some (JObject data
               [(''ErrorCode'', JString (quoted ''PASWS027E'') ''PASWS027E''),
                (''ErrorMessage'', JString (quoted ''not found'') ''not found'')])
      else if data = body_incoming then Some incoming_json
      else if data = ''{}'' then Some (JObject data [])
      else None)\<close>

definition sample_url_ok :: "string \<Rightarrow> bool" where
  "sample_url_ok url = True"

definition sample_lib :: lib where
  "sample_lib = \<lparr>json_scan = sample_scan, url_ok = sample_url_ok\<rparr>"

definition sample_RoundTrip :: "http_Request list \<Rightarrow> http_Request \<Rightarrow> string + http_Response" where
  "sample_RoundTrip history req =
     (if URL req = sample_base @ ''/PasswordVault/WebServices/auth/Cyberark/CyberArkAuthenticationService.svc/Logon''
        then (case ReqBody req of
                Some (JSON_caLogonRequest p) \<Rightarrow>
                  if Password p = ''hunter2''
                  then Inr \<lparr>StatusCode = 200, Body = Inr body_logon_ok\<rparr>
                  else if Password p = ''mistyped''
                  then Inr \<lparr>StatusCode = 200, Body = Inr body_logon_mistyped\<rparr>
                  else Inr \<lparr>StatusCode = 200, Body = Inr body_logon_denied\<rparr>
              | _ \<Rightarrow> Inr \<lparr>StatusCode = 400, Body = Inr []\<rparr>)
      else if URL req = sample_base @ ''/PasswordVault/API/IncomingRequests''
        then Inr \<lparr>StatusCode = 200, Body = Inr body_incoming\<rparr>
      else if URL req = sample_base @ ''/PasswordVault/API/MyRequests''
        then (if map_of (Header req) ''Authorization'' = Some ''AAEAAA''
              then Inr \<lparr>StatusCode = 200, Body = Inr body_my_requests\<rparr>
              else Inr \<lparr>StatusCode = 200, Body = Inr body_my_requests_error\<rparr>)
      else if URL req = sample_base @ ''/PasswordVault/WebServices/PIMServices.svc/Accounts/11/Credentials''
        then Inl ''connection reset by peer''
      else if URL req = sample_base @ ''/PasswordVault/WebServices/PIMServices.svc/Accounts/22/Credentials''
        then Inr \<lparr>StatusCode = 200, Body = Inr ''s3cret''\<rparr>
      else if URL req = sample_base @ ''/PasswordVault/API/IncomingRequests/7/Confirm''
        then Inr \<lparr>StatusCode = 500, Body = Inr ''{}''\<rparr>
      else if URL req = sample_base @ ''/PasswordVault/API/IncomingRequests/8/Confirm''
        then Inr \<lparr>StatusCode = 404, Body = Inr body_confirm_error\<rparr>
      else if URL req = sample_base @ ''/PasswordVault/API/IncomingRequests/9/Confirm''
        then Inr \<lparr>StatusCode = 502, Body = Inr ''<html>''\<rparr>
      else Inr \<lparr>StatusCode = 200, Body = Inr []\<rparr>)"

definition sample_Client :: http_Client where
  "sample_Client = \<lparr>RoundTrip = sample_RoundTrip, Sent = []\<rparr>"

text \<open>The session as \<^verbatim>\<open>main\<close> creates it, and the session that holds a token.\<close>

definition fresh_api :: caAPI where
  "fresh_api = new_caAPI sample_base sample_Client"

definition logged_in_api :: caAPI where
  "logged_in_api = fresh_api\<lparr>LogonKey := ''AAEAAA''\<rparr>"

definition stale_api :: caAPI where
  "stale_api = fresh_api\<lparr>LogonKey := ''expired''\<rparr>"

definition incoming_request :: "string \<Rightarrow> caIncomingRequest" where
  "incoming_request rid = zero_caIncomingRequest\<lparr>RequestID := rid\<rparr>"

definition empty_console :: console where
  "empty_console = \<lparr>stdout = [], stderr = []\<rparr>"

section \<open>Properties of the timestamp codec\<close>

lemma trimLeftByte_dropWhile: "trimLeftByte s c = dropWhile (\<lambda>x. x = c) s"
  by (induction s) auto

lemma trimRightByte_rev: "trimRightByte s c = rev (dropWhile (\<lambda>x. x = c) (rev s))"
proof (induction s c rule: trimRightByte.induct)
  case (1 s c)
  show ?case
  proof (cases "s \<noteq> [] \<and> last s = c")
    case True
    then obtain ys where s: "s = ys @ [c]"
      by (metis append_butlast_last_id)
    from True 1 have "trimRightByte (butlast s) c = rev (dropWhile (\<lambda>x. x = c) (rev (butlast s)))"
      by simp
    with s show ?thesis
      by (subst trimRightByte.simps) simp
  next
    case False
    then show ?thesis
      by (subst trimRightByte.simps) (cases s rule: rev_cases; auto)
  qed
qed

lemma dropWhile_keeps: "x \<in> set s \<Longrightarrow> \<not> P x \<Longrightarrow> x \<in> set (dropWhile P s)"
  by (induction s) auto

lemma dropWhile_none: "\<forall>x\<in>set s. \<not> P x \<Longrightarrow> dropWhile P s = s"
  by (cases s) auto

lemma unquoted_quoted: "unquoted (quoted s) = unquoted s"
proof (cases "\<forall>x\<in>set s. x = dquote")
  case True
  then have "dropWhile (\<lambda>x. x = dquote) s = []"
    by simp
  with True show ?thesis
    by (auto simp add: unquoted_def quoted_def trimLeftByte_dropWhile trimRightByte_rev dropWhile_append
          dest: set_dropWhileD)
next
  case False
  then show ?thesis
    by (auto simp add: unquoted_def quoted_def trimLeftByte_dropWhile trimRightByte_rev dropWhile_append)
qed

lemma unquoted_id: "dquote \<notin> set s \<Longrightarrow> unquoted s = s"
proof -
  assume a: "dquote \<notin> set s"
  then have 1: "dropWhile (\<lambda>x. x = dquote) s = s"
    by (intro dropWhile_none) auto
  from a have 2: "dropWhile (\<lambda>x. x = dquote) (rev s) = rev s"
    by (intro dropWhile_none) auto
  show ?thesis
    by (simp add: unquoted_def trimLeftByte_dropWhile trimRightByte_rev 1 2)
qed

lemma set_unquoted: "c \<noteq> dquote \<Longrightarrow> c \<in> set b \<Longrightarrow> c \<in> set (unquoted b)"
proof -
  assume c: "c \<noteq> dquote" and b: "c \<in> set b"
  then have "c \<in> set (dropWhile (\<lambda>x. x = dquote) b)"
    by (intro dropWhile_keeps) auto
  then have "c \<in> set (rev (dropWhile (\<lambda>x. x = dquote) b))"
    by simp
  then have "c \<in> set (dropWhile (\<lambda>x. x = dquote) (rev (dropWhile (\<lambda>x. x = dquote) b)))"
    using c by (intro dropWhile_keeps) auto
  then show ?thesis
    by (simp add: unquoted_def trimLeftByte_dropWhile trimRightByte_rev)
qed

lemma lt10_cases:
  "(d::nat) < 10 \<Longrightarrow> d = 0 \<or> d = 1 \<or> d = 2 \<or> d = 3 \<or> d = 4 \<or> d = 5 \<or> d = 6 \<or> d = 7 \<or> d = 8 \<or> d = 9"
  by arith

lemma of_char_digit_byte:
  "d < 10 \<Longrightarrow> (of_char (char_of (48 + d :: nat)) :: byte) = 48 + of_nat d"
proof -
  assume d: "d < 10"
  have "(of_char (char_of (48 + d)) :: byte) = of_nat (of_char (char_of (48 + d)))"
    by (simp only: of_nat_of_char)
  also have "\<dots> = of_nat ((48 + d) mod 256)"
    by simp
  also have "\<dots> = 48 + of_nat d"
    using d by simp
  finally show ?thesis .
qed

lemma byte_digit_le9: "d < 10 \<Longrightarrow> \<not> 9 < (of_nat d :: byte)"
  by (drule lt10_cases) (elim disjE; simp)

lemma byte_digit_ucast: "d < 10 \<Longrightarrow> (ucast (of_nat d :: byte) :: int64) = of_nat d"
  by (drule lt10_cases) (elim disjE; simp)

lemma atoi_loop_digit:
  "d < 10 \<Longrightarrow> atoi_loop [char_of (48 + d)] n = Some (n * 10 + of_nat d)"
  by (simp add: of_char_digit_byte byte_digit_le9 byte_digit_ucast)

lemma byte_digit_range: "d < 10 \<Longrightarrow> (48::byte) \<le> 48 + of_nat d \<and> 48 + of_nat d \<le> (57::byte)"
  by (drule lt10_cases) (elim disjE; simp)

lemma digitVal_digit:
  "d < 10 \<Longrightarrow> digitVal (char_of (48 + d)) = Some (of_nat d)"
  by (simp add: digitVal_def of_char_digit_byte byte_digit_range)

lemma digit_not_dquote: "(d::nat) < 10 \<Longrightarrow> char_of (48 + d) \<noteq> dquote"
proof
  assume d: "d < 10" and eq: "char_of (48 + d) = dquote"
  from eq have "(of_char (char_of (48 + d)) :: nat) = of_char dquote"
    by simp
  with d show False
    by (simp add: dquote_def)
qed

lemma atoi_loop_append:
  "atoi_loop (xs @ ys) n = (case atoi_loop xs n of None \<Rightarrow> None | Some m \<Rightarrow> atoi_loop ys m)"
  by (induction xs arbitrary: n) (auto simp: Let_def)

lemma atoi_loop_digits10: "atoi_loop (digits10 k) 0 = Some (of_nat k)"
proof (induction k rule: digits10.induct)
  case (1 n)
  show ?case
  proof (cases "n < 10")
    case True
    then show ?thesis
      by (subst digits10.simps) (simp add: atoi_loop_digit del: atoi_loop.simps)
  next
    case False
    with 1 have ih: "atoi_loop (digits10 (n div 10)) 0 = Some (of_nat (n div 10))"
      by simp
    have "(of_nat n :: int64) = of_nat (n div 10 * 10 + n mod 10)"
      by simp
    also have "\<dots> = of_nat (n div 10) * of_nat 10 + of_nat (n mod 10)"
      by (simp only: of_nat_add of_nat_mult)
    finally have "(of_nat (n div 10) :: int64) * 10 + of_nat (n mod 10) = of_nat n"
      by simp
    with False ih show ?thesis
      by (subst digits10.simps) (simp add: atoi_loop_append atoi_loop_digit del: atoi_loop.simps)
  qed
qed

lemma parseUint_loop_append:
  "parseUint_loop s0 (xs @ ys) n =
     (case parseUint_loop s0 xs n of (m, None) \<Rightarrow> parseUint_loop s0 ys m | (m, Some e) \<Rightarrow> (m, Some e))"
  by (induction xs arbitrary: n) (auto simp: Let_def split: option.splits)

lemma unat_of_nat64: "k < 2 ^ 64 \<Longrightarrow> unat (of_nat k :: uint64) = k"
  by (simp add: unat_of_nat)

lemma byte_digit_lt10: "d < 10 \<Longrightarrow> \<not> 10 \<le> (of_nat d :: byte)"
  by (simp add: word_le_nat_alt unat_of_nat)

lemma cutoff10_val: "unat cutoff10 = 1844674407370955162"
  by (simp add: cutoff10_def maxUint64_def)

lemma parseUint_loop_digit:
  assumes d: "d < 10" and k: "k * 10 + d < 2 ^ 64"
  shows "parseUint_loop s0 [char_of (48 + d)] (of_nat k) = (of_nat (k * 10 + d), None)"
proof -
  from k have k64: "k < 2 ^ 64" and k10: "k * 10 < 2 ^ 64"
    by simp_all
  have uk: "unat (of_nat k :: uint64) = k"
    using k64 by (rule unat_of_nat64)
  from k have "k < 1844674407370955162"
    by simp
  then have c: "\<not> cutoff10 \<le> (of_nat k :: uint64)"
    by (simp add: word_le_nat_alt uk cutoff10_val)
  have n': "(of_nat k :: uint64) * 10 = of_nat (k * 10)"
    by simp
  have n1: "(of_nat (k * 10) :: uint64) + of_nat d = of_nat (k * 10 + d)"
    by simp
  have o: "\<not> (of_nat (k * 10 + d) :: uint64) < of_nat (k * 10)"
    by (simp only: word_less_nat_alt unat_of_nat64 [OF k] unat_of_nat64 [OF k10])
  have m: "\<not> (of_nat (k * 10 + d) :: uint64) > maxUint64"
    by (simp add: maxUint64_def)
  show ?thesis
    using c o m
    by (simp only: parseUint_loop.simps digitVal_digit [OF d] option.case byte_digit_lt10 [OF d]
          if_False Let_def byte_digit_ucast [OF d] n' n1 simp_thms)
qed

lemma parseUint_loop_digits10:
  "k < 2 ^ 64 \<Longrightarrow> parseUint_loop s0 (digits10 k) 0 = (of_nat k, None)"
proof (induction k rule: digits10.induct)
  case (1 n)
  show ?case
  proof (cases "n < 10")
    case True
    then have "0 * 10 + n < 2 ^ 64"
      by simp
    from parseUint_loop_digit [OF True this, of s0] True show ?thesis
      by (subst digits10.simps) simp
  next
    case False
    from "1.prems" have "n div 10 < 2 ^ 64"
      by simp
    with 1 False have ih: "parseUint_loop s0 (digits10 (n div 10)) 0 = (of_nat (n div 10), None)"
      by simp
    have d: "n mod 10 < 10"
      by simp
    have k: "n div 10 * 10 + n mod 10 < 2 ^ 64"
      using "1.prems" by simp
    from parseUint_loop_digit [OF d k, of s0] False ih show ?thesis
      by (subst digits10.simps) (simp add: parseUint_loop_append del: parseUint_loop.simps)
  qed
qed

lemma digits10_nonempty: "digits10 k \<noteq> []"
  by (subst digits10.simps) simp

lemma digits10_set: "c \<in> set (digits10 k) \<Longrightarrow> \<exists>d::nat. d < 10 \<and> c = char_of (48 + d)"
proof (induction k rule: digits10.induct)
  case (1 n)
  show ?case
  proof (cases "n < 10")
    case True
    with "1.prems" have "c = char_of (48 + n)"
      by (subst (asm) digits10.simps) simp
    with True show ?thesis
      by blast
  next
    case False
    with "1.prems" have "c \<in> set (digits10 (n div 10) @ [char_of (48 + n mod 10)])"
      by (subst (asm) digits10.simps) simp
    then have "c \<in> set (digits10 (n div 10)) \<or> c = char_of (48 + n mod 10)"
      by (simp only: set_append set_simps Un_iff insert_iff empty_iff) blast
    then show ?thesis
    proof
      assume "c \<in> set (digits10 (n div 10))"
      with False "1.IH" show ?thesis
        by blast
    next
      assume c: "c = char_of (48 + n mod 10)"
      have "n mod 10 < 10"
        by simp
      with c show ?thesis
        by blast
    qed
  qed
qed

lemma digit_not_sign: "(d::nat) < 10 \<Longrightarrow> char_of (48 + d) \<noteq> CHR ''-'' \<and> char_of (48 + d) \<noteq> CHR ''+''"
proof -
  assume d: "d < 10"
  have "(of_char (char_of (48 + d)) :: nat) \<noteq> of_char CHR ''-''"
    using d by simp
  moreover have "(of_char (char_of (48 + d)) :: nat) \<noteq> of_char CHR ''+''"
    using d by simp
  ultimately show ?thesis
    by metis
qed

lemma hd_digits10: "hd (digits10 k) \<noteq> CHR ''-'' \<and> hd (digits10 k) \<noteq> CHR ''+''"
proof -
  have "hd (digits10 k) \<in> set (digits10 k)"
    by (simp add: digits10_nonempty)
  then obtain d :: nat where "d < 10" "hd (digits10 k) = char_of (48 + d)"
    using digits10_set by blast
  then show ?thesis
    using digit_not_sign by simp
qed

lemma cutoff63: "unat (push_bit 63 1 :: uint64) = 9223372036854775808"
  by simp

lemma Atoi_digits_pos:
  assumes k: "k < 2 ^ 63"
  shows "Atoi (digits10 k) = (of_nat k, None)"
proof (cases "length (digits10 k) < 19")
  case True
  then show ?thesis
    by (simp add: Atoi_def Let_def digits10_nonempty hd_digits10 atoi_loop_digits10)
next
  case False
  from k have k64: "k < 2 ^ 64" by simp
  have u: "unat (of_nat k :: uint64) = k"
    using k64 by (rule unat_of_nat64)
  have c: "\<not> (push_bit 63 1 :: uint64) \<le> of_nat k"
    using k by (simp only: word_le_nat_alt u cutoff63) simp
  have "ParseInt (digits10 k) = (of_nat k, None)"
    using c
    by (simp add: ParseInt_def ParseUint_def Let_def digits10_nonempty hd_digits10
          parseUint_loop_digits10 [OF k64] del: push_bit_of_1)
  with False show ?thesis
    by (simp add: Atoi_def Let_def setFunc_def)
qed

lemma Atoi_digits_neg:
  assumes k: "k \<le> 2 ^ 63"
  shows "Atoi (CHR ''-'' # digits10 k) = (- of_nat k, None)"
proof (cases "length (CHR ''-'' # digits10 k) < 19")
  case True
  then show ?thesis
    by (simp add: Atoi_def Let_def digits10_nonempty atoi_loop_digits10)
next
  case False
  from k have k64: "k < 2 ^ 64" by simp
  have u: "unat (of_nat k :: uint64) = k"
    using k64 by (rule unat_of_nat64)
  have c: "\<not> (push_bit 63 1 :: uint64) < of_nat k"
    using k by (simp only: word_less_nat_alt u cutoff63) simp
  have "ParseInt (CHR ''-'' # digits10 k) = (- of_nat k, None)"
    using c
    by (simp add: ParseInt_def ParseUint_def Let_def digits10_nonempty
          parseUint_loop_digits10 [OF k64] del: push_bit_of_1)
  with False show ?thesis
    by (simp add: Atoi_def Let_def setFunc_def)
qed

lemma Atoi_Itoa:
  assumes "- (2 ^ 63) \<le> T" "T < 2 ^ 63"
  shows "Atoi (Itoa T) = (of_int T, None)"
proof (cases "T < 0")
  case True
  with assms have "nat (- T) \<le> 2 ^ 63"
    by simp
  from Atoi_digits_neg [OF this] True show ?thesis
    by (simp add: Itoa_def)
next
  case False
  with assms have "nat T < 2 ^ 63"
    by simp
  from Atoi_digits_pos [OF this] False show ?thesis
    by (simp add: Itoa_def)
qed

lemma Itoa_no_dquote: "dquote \<notin> set (Itoa T)"
proof -
  have "dquote \<notin> set (digits10 k)" for k
  proof
    assume "dquote \<in> set (digits10 k)"
    then obtain d :: nat where "d < 10" "dquote = char_of (48 + d)"
      using digits10_set by blast
    then show False
      using digit_not_dquote [of d] by simp
  qed
  then show ?thesis
    by (simp add: Itoa_def dquote_def)
qed

lemma Time_Unix_time_Unix: "Time_Unix (time_Unix sec) = sec"
  by (simp add: Time_Unix_def time_Unix_def internalToUnix_def)

lemma sint_of_int64: "- (2 ^ 63) \<le> T \<Longrightarrow> T < 2 ^ 63 \<Longrightarrow> sint (of_int T :: int64) = T"
  by (simp add: signed_of_int signed_take_bit_int_eq_self)

lemma unat_of_char_byte: "unat (of_char c :: byte) = of_char c"
proof -
  have "(of_char c :: byte) = of_nat (of_char c)"
    by (simp only: of_nat_of_char)
  then have "unat (of_char c :: byte) = unat (of_nat (of_char c) :: byte)"
    by simp
  also have "\<dots> = of_char c mod 256"
    by (simp add: unat_of_nat)
  finally show ?thesis
    by simp
qed

lemma byte_sub48: "\<not> 9 < (x :: byte) - 0x30 \<Longrightarrow> 48 \<le> unat x \<and> unat x \<le> 57"
proof -
  assume a: "\<not> 9 < x - 0x30"
  have "unat (x - 0x30) = (if 48 \<le> unat x then unat x - 48 else unat x + 256 - 48)"
    by (simp add: unat_sub_if')
  with a show ?thesis
    by (simp add: word_less_nat_alt split: if_splits)
qed

lemma atoi_digit_ok: "\<not> 9 < (of_char c :: byte) - 0x30 \<Longrightarrow> isDigit c"
  using byte_sub48 [of "of_char c"] by (simp add: isDigit_def unat_of_char_byte)

lemma atoi_loop_Some_digits: "atoi_loop cs n = Some m \<Longrightarrow> list_all isDigit cs"
  by (induction cs arbitrary: n) (auto simp: Let_def atoi_digit_ok split: if_splits)

lemma byte_letter_ge10: "0x61 \<le> (y::byte) \<Longrightarrow> y \<le> 0x7A \<Longrightarrow> 10 \<le> y - 0x61 + 10"
proof -
  assume a: "0x61 \<le> y" and b: "y \<le> 0x7A"
  from a have y: "97 \<le> unat y"
    by (simp add: word_le_nat_alt)
  then have "87 \<le> y"
    by (simp add: word_le_nat_alt)
  then have "unat (y - 87) = unat y - 87"
    by (simp add: unat_sub)
  with y have "10 \<le> y - 87"
    by (simp add: word_le_nat_alt)
  then show ?thesis
    by simp
qed

lemma byte_range_digit: "0x30 \<le> (x::byte) \<Longrightarrow> x \<le> 0x39 \<Longrightarrow> 48 \<le> unat x \<and> unat x \<le> 57"
  by (simp add: word_le_nat_alt)

lemma digitVal_lt10: "digitVal c = Some d \<Longrightarrow> \<not> 10 \<le> d \<Longrightarrow> isDigit c"
  using byte_range_digit [of "of_char c"] byte_letter_ge10 [of "lower (of_char c)"]
  by (auto simp: digitVal_def Let_def isDigit_def unat_of_char_byte split: if_splits)

lemma parseUint_loop_None_digits: "snd (parseUint_loop s0 cs n) = None \<Longrightarrow> list_all isDigit cs"
  by (induction cs arbitrary: n) (auto simp: Let_def digitVal_lt10 split: if_splits option.splits)

lemma parseUint_loop_err:
  "snd (parseUint_loop s0 cs n) = Some e \<Longrightarrow>
     (e = syntaxError ''ParseUint'' s0 \<and> fst (parseUint_loop s0 cs n) = 0) \<or>
     (e = rangeError ''ParseUint'' s0 \<and> fst (parseUint_loop s0 cs n) = maxUint64)"
  by (induction cs arbitrary: n) (auto simp: Let_def split: if_splits option.splits)

lemma ParseUint_cases:
  "(snd (ParseUint s) = None \<and> s \<noteq> [] \<and> list_all isDigit s) \<or>
   (snd (ParseUint s) = Some (syntaxError ''ParseUint'' s)) \<or>
   (ParseUint s = (maxUint64, Some (rangeError ''ParseUint'' s)))"
proof (cases "s = []")
  case True
  then show ?thesis
    by (simp add: ParseUint_def)
next
  case False
  show ?thesis
  proof (cases "snd (parseUint_loop s s 0)")
    case None
    with False parseUint_loop_None_digits [of s s 0] show ?thesis
      by (simp add: ParseUint_def)
  next
    case (Some e)
    with False parseUint_loop_err [of s s 0 e] show ?thesis
      by (auto simp add: ParseUint_def prod_eq_iff)
  qed
qed

lemma maxUint64_val: "maxUint64 = 18446744073709551615"
  by (simp add: maxUint64_def)

lemma maxUint64_cutoff: "(push_bit 63 1 :: uint64) \<le> maxUint64" "(push_bit 63 1 :: uint64) < maxUint64"
  by (simp_all add: maxUint64_val word_le_nat_alt word_less_nat_alt)

lemma ParseInt_result:
  "(snd (ParseInt s) = None \<and> base10_integer s) \<or> (\<exists>k. snd (ParseInt s) = Some (NumError ''ParseInt'' s k))"
proof (cases s)
  case Nil
  then show ?thesis
    by (simp add: ParseInt_def syntaxError_def)
next
  case (Cons c cs)
  define s1 where "s1 = (if c = CHR ''+'' then cs else if c = CHR ''-'' then cs else s)"
  from ParseUint_cases [of s1] show ?thesis
  proof (elim disjE)
    assume "snd (ParseUint s1) = None \<and> s1 \<noteq> [] \<and> list_all isDigit s1"
    then show ?thesis
      using Cons
      by (cases "ParseUint s1")
         (auto simp add: ParseInt_def Let_def s1_def base10_integer_def rangeError_def
            simp del: push_bit_of_1 split: if_splits)
  next
    assume "snd (ParseUint s1) = Some (syntaxError ''ParseUint'' s1)"
    then show ?thesis
      using Cons
      by (cases "ParseUint s1")
         (auto simp add: ParseInt_def Let_def s1_def syntaxError_def isErrRange_def
            simp del: push_bit_of_1 split: if_splits)
  next
    assume "ParseUint s1 = (maxUint64, Some (rangeError ''ParseUint'' s1))"
    then show ?thesis
      using Cons maxUint64_cutoff
      by (auto simp add: ParseInt_def Let_def s1_def rangeError_def isErrRange_def
            simp del: push_bit_of_1 split: if_splits)
  qed
qed

lemma Atoi_result:
  "(snd (Atoi s) = None \<and> base10_integer s) \<or> (\<exists>k. snd (Atoi s) = Some (NumError ''Atoi'' s k))"
proof (cases "0 < length s \<and> length s < 19")
  case True
  then obtain c cs where s: "s = c # cs"
    by (cases s) auto
  show ?thesis
  proof (cases "c = CHR ''-'' \<or> c = CHR ''+''")
    case sign: True
    show ?thesis
    proof (cases "atoi_loop cs 0")
      case None
      with True s sign show ?thesis
        by (auto simp add: Atoi_def Let_def syntaxError_def)
    next
      case (Some n)
      with True s sign atoi_loop_Some_digits [OF Some] show ?thesis
        by (cases cs) (auto simp add: Atoi_def Let_def syntaxError_def base10_integer_def)
    qed
  next
    case nosign: False
    show ?thesis
    proof (cases "atoi_loop s 0")
      case None
      with True s nosign show ?thesis
        by (auto simp add: Atoi_def Let_def syntaxError_def)
    next
      case (Some n)
      with True s nosign atoi_loop_Some_digits [OF Some] show ?thesis
        by (auto simp add: Atoi_def Let_def base10_integer_def)
    qed
  qed
next
  case False
  with ParseInt_result [of s] show ?thesis
    by (cases "ParseInt s") (auto simp add: Atoi_def Let_def setFunc_def)
qed

lemma digit_chars:
  "char_of (48::nat) = CHR ''0''" "char_of (49::nat) = CHR ''1''" "char_of (50::nat) = CHR ''2''"
  "char_of (51::nat) = CHR ''3''" "char_of (52::nat) = CHR ''4''" "char_of (53::nat) = CHR ''5''"
  "char_of (54::nat) = CHR ''6''" "char_of (55::nat) = CHR ''7''" "char_of (56::nat) = CHR ''8''"
  "char_of (57::nat) = CHR ''9''"
  by (simp_all add: char_of_def bit_Suc_0_iff)

lemmas Atoi_eval = Atoi_def ParseInt_def ParseUint_def digitVal_def cutoff10_def maxUint64_def
  rangeError_def syntaxError_def setFunc_def isErrRange_def lower_def Let_def

lemmas unquoted_eval = unquoted_def quoted_def dquote_def trimRightByte.simps


lemma UnmarshalJSON_unquoted:
  "UnmarshalJSON m b =
     (case Atoi (unquoted b) of (i, None) \<Rightarrow> (None, m\<lparr>Time := time_Unix i\<rparr>) | (i, Some e) \<Rightarrow> (Some e, m))"
  by (simp add: UnmarshalJSON_def unquoted_def Let_def split: prod.splits option.splits)

lemma UnmarshalJSON_quoted: "UnmarshalJSON m (quoted s) = UnmarshalJSON m s"
  by (simp only: UnmarshalJSON_unquoted unquoted_quoted)

lemma UnmarshalJSON_Itoa:
  assumes "- (2 ^ 63) \<le> T" "T < 2 ^ 63"
  shows "UnmarshalJSON m (Itoa T) = (None, m\<lparr>Time := time_Unix (of_int T)\<rparr>)"
  by (simp add: UnmarshalJSON_unquoted unquoted_id [OF Itoa_no_dquote] Atoi_Itoa [OF assms])

lemma UnmarshalJSON_rejects:
  assumes "\<not> base10_integer (unquoted b)"
  shows "\<exists>k. UnmarshalJSON m b = (Some (NumError ''Atoi'' (unquoted b) k), m)"
proof -
  from Atoi_result [of "unquoted b"] assms
  obtain k where "snd (Atoi (unquoted b)) = Some (NumError ''Atoi'' (unquoted b) k)"
    by blast
  then show ?thesis
    by (cases "Atoi (unquoted b)") (simp add: UnmarshalJSON_unquoted)
qed

lemma UnmarshalJSON_accepts:
  assumes "fst (UnmarshalJSON m b) = None"
  shows "base10_integer (unquoted b)"
proof (rule ccontr)
  assume "\<not> base10_integer (unquoted b)"
  from UnmarshalJSON_rejects [OF this, of m] assms show False
    by auto
qed

lemma isDigit_not_point: "isDigit c \<Longrightarrow> c \<noteq> CHR ''.'' \<and> c \<noteq> CHR ''e'' \<and> c \<noteq> CHR ''E''"
  by (auto simp: isDigit_def)

lemma base10_integer_chars:
  "base10_integer s \<Longrightarrow> c \<in> set s \<Longrightarrow> c \<noteq> CHR ''.'' \<and> c \<noteq> CHR ''e'' \<and> c \<noteq> CHR ''E''"
  by (cases s) (auto simp: base10_integer_def list_all_iff dest: isDigit_not_point split: if_splits)

lemma unixToInternal_val: "unixToInternal = 62135596800"
  by (simp add: unixToInternal_def)

lemma ext_time_Unix:
  assumes "- (2 ^ 63) \<le> T" and "T < 2 ^ 63 - 62135596800"
  shows "sint (ext (time_Unix (of_int T))) = T + 62135596800"
proof -
  have "ext (time_Unix (of_int T)) = (of_int (T + 62135596800) :: int64)"
    by (simp add: time_Unix_def unixToInternal_val)
  moreover have "- (2 ^ 63) \<le> T + 62135596800" "T + 62135596800 < 2 ^ 63"
    using assms by simp_all
  ultimately show ?thesis
    by (simp only: sint_of_int64)
qed

text \<open>
  Claim C1, as amended. For every integer \<open>T\<close> with \<open>-2^63 \<le> T < 2^63 - 62135596800\<close>,
  decoding the quoted numeral and the bare numeral of \<open>T\<close> gives the same result, the
  decoding succeeds, and the instant stored is Unix second \<open>T\<close>: the \<^verbatim>\<open>time.Time\<close>
  holds no nanoseconds and \<open>T + 62135596800\<close> seconds since year 1, without overflow,
  and \<^verbatim>\<open>Unix()\<close> reads it back as \<open>T\<close>. Stripping the quotes from the bare numeral
  changes nothing, and quoted and bare input go through the same parse for every text
  \<open>s\<close>, numeral or not.
\<close>

theorem timestamp_quoted_bare_same_instant:
  assumes "- (2 ^ 63) \<le> T" and "T < 2 ^ 63 - 62135596800"
  shows "UnmarshalJSON m (quoted (Itoa T)) = UnmarshalJSON m (Itoa T)
       \<and> fst (UnmarshalJSON m (Itoa T)) = None
       \<and> wall (Time (snd (UnmarshalJSON m (Itoa T)))) = 0
       \<and> sint (ext (Time (snd (UnmarshalJSON m (Itoa T))))) = T + 62135596800
       \<and> sint (Time_Unix (Time (snd (UnmarshalJSON m (Itoa T))))) = T
       \<and> unquoted (Itoa T) = Itoa T
       \<and> UnmarshalJSON m (quoted s) = UnmarshalJSON m s"
proof -
  from assms have r: "- (2 ^ 63) \<le> T" "T < 2 ^ 63"
    by simp_all
  have w: "wall (time_Unix (of_int T)) = 0"
    by (simp add: time_Unix_def)
  show ?thesis
    by (simp add: UnmarshalJSON_quoted UnmarshalJSON_Itoa [OF r] Time_Unix_time_Unix
          sint_of_int64 [OF r] unquoted_id [OF Itoa_no_dquote] ext_time_Unix [OF assms] w)
qed

theorem timestamp_quoted_bare_same_instant_witness:
  "- (2 ^ 63) \<le> (1543600800::int) \<and> (1543600800::int) < 2 ^ 63 - 62135596800
     \<and> Itoa 1543600800 = ''1543600800''
     \<and> UnmarshalJSON zero_caTime (quoted ''1543600800'') = UnmarshalJSON zero_caTime ''1543600800''
     \<and> fst (UnmarshalJSON zero_caTime ''1543600800'') = None
     \<and> sint (ext (Time (snd (UnmarshalJSON zero_caTime ''1543600800'')))) = 63679197600
     \<and> sint (Time_Unix (Time (snd (UnmarshalJSON zero_caTime ''1543600800'')))) = 1543600800"
proof -
  have r: "- (2 ^ 63) \<le> (1543600800::int)" "(1543600800::int) < 2 ^ 63 - 62135596800"
    by simp_all
  have i: "Itoa 1543600800 = ''1543600800''"
    by (simp add: Itoa_def digits10.simps digit_chars)
  from timestamp_quoted_bare_same_instant [OF r, of zero_caTime "[]"] r i show ?thesis
    by simp
qed

text \<open>
  Claim C1 as stated (every integer \<open>T\<close>) fails above that range, in two ways.
  At \<open>T = 2^63\<close> \<^verbatim>\<open>strconv.Atoi\<close> reports a range error for the numeral, quoted or
  bare, and no instant is stored. At \<open>T = 2^63 - 62135596800\<close> the numeral is accepted,
  but \<^verbatim>\<open>time.Unix\<close> overflows: the stored seconds since year 1 are \<open>-2^63\<close>, an
  instant long before the epoch and not Unix second \<open>T\<close>.
\<close>

theorem timestamp_out_of_range_counterexample:
  "Itoa 9223372036854775808 = ''9223372036854775808''
     \<and> UnmarshalJSON zero_caTime ''9223372036854775808''
         = (Some (NumError ''Atoi'' ''9223372036854775808'' ErrRange), zero_caTime)
     \<and> UnmarshalJSON zero_caTime (quoted ''9223372036854775808'')
         = (Some (NumError ''Atoi'' ''9223372036854775808'' ErrRange), zero_caTime)
     \<and> Itoa 9223371974719179008 = ''9223371974719179008''
     \<and> fst (UnmarshalJSON zero_caTime ''9223371974719179008'') = None
     \<and> sint (ext (Time (snd (UnmarshalJSON zero_caTime ''9223371974719179008''))))
         = - 9223372036854775808"
proof -
  have i: "Itoa 9223372036854775808 = ''9223372036854775808''"
    by (simp add: Itoa_def digits10.simps digit_chars)
  have u: "unquoted ''9223372036854775808'' = ''9223372036854775808''"
    by (simp add: unquoted_eval)
  have a: "Atoi ''9223372036854775808''
             = (9223372036854775807, Some (NumError ''Atoi'' ''9223372036854775808'' ErrRange))"
    by (simp add: Atoi_eval)
  have i': "Itoa 9223371974719179008 = ''9223371974719179008''"
    by (simp add: Itoa_def digits10.simps digit_chars)
  have r: "- (2 ^ 63) \<le> (9223371974719179008::int)" "(9223371974719179008::int) < 2 ^ 63"
    by simp_all
  have d: "UnmarshalJSON zero_caTime ''9223371974719179008''
             = (None, zero_caTime\<lparr>Time := time_Unix 9223371974719179008\<rparr>)"
    using UnmarshalJSON_Itoa [OF r, of zero_caTime] by (simp add: i')
  have e: "sint (ext (time_Unix 9223371974719179008)) = - 9223372036854775808"
    by (simp add: time_Unix_def unixToInternal_val)
  show ?thesis
    by (simp add: i i' UnmarshalJSON_quoted d e) (simp add: UnmarshalJSON_unquoted u a)
qed

text \<open>
  Claim C9. When the input without its quotes is not a base-10 integer,
  \<^verbatim>\<open>UnmarshalJSON\<close> returns the error of \<^verbatim>\<open>strconv.Atoi\<close> for that text and
  leaves the receiver as it was: no instant is produced.
\<close>

theorem malformed_timestamp_rejected:
  assumes "\<not> base10_integer (unquoted b)"
  shows "\<exists>k. UnmarshalJSON m b = (Some (NumError ''Atoi'' (unquoted b) k), m)"
  using assms by (rule UnmarshalJSON_rejects)

theorem malformed_timestamp_rejected_witness:
  "\<not> base10_integer (unquoted (quoted ''soon''))
     \<and> (\<exists>k. UnmarshalJSON zero_caTime (quoted ''soon'') = (Some (NumError ''Atoi'' ''soon'' k), zero_caTime))"
proof -
  have u: "unquoted (quoted ''soon'') = ''soon''"
    by (simp add: unquoted_eval)
  have h: "\<not> base10_integer (unquoted (quoted ''soon''))"
    by (simp add: u base10_integer_def isDigit_def)
  from malformed_timestamp_rejected [OF h, of zero_caTime] h u show ?thesis
    by simp
qed

text \<open>
  Claim C10. An input that contains a decimal point or an exponent mark is rejected
  with the error of \<^verbatim>\<open>strconv.Atoi\<close>; an input that is accepted is, without its
  quotes, a base-10 integer (optional sign, then digits); and the numeral of a negative
  \<open>T \<ge> -2^63\<close>, quoted or not, is accepted and decodes to Unix second \<open>T\<close>, before
  the epoch.
\<close>

theorem fraction_or_exponent_rejected:
  "(CHR ''.'' \<in> set b \<or> CHR ''e'' \<in> set b \<or> CHR ''E'' \<in> set b
      \<longrightarrow> (\<exists>k. UnmarshalJSON m b = (Some (NumError ''Atoi'' (unquoted b) k), m)))
   \<and> (fst (UnmarshalJSON m a) = None \<longrightarrow> base10_integer (unquoted a))
   \<and> (- (2 ^ 63) \<le> T \<and> T < 0
      \<longrightarrow> UnmarshalJSON m (Itoa T) = UnmarshalJSON m (quoted (Itoa T))
        \<and> fst (UnmarshalJSON m (Itoa T)) = None
        \<and> sint (Time_Unix (Time (snd (UnmarshalJSON m (Itoa T))))) = T)"
proof (intro conjI impI)
  assume b: "CHR ''.'' \<in> set b \<or> CHR ''e'' \<in> set b \<or> CHR ''E'' \<in> set b"
  have "\<not> base10_integer (unquoted b)"
  proof
    assume i: "base10_integer (unquoted b)"
    from b obtain c where c: "c \<in> set b" "c = CHR ''.'' \<or> c = CHR ''e'' \<or> c = CHR ''E''"
      by blast
    then have "c \<noteq> dquote"
      by (auto simp: dquote_def)
    from set_unquoted [OF this c(1)] base10_integer_chars [OF i] c(2) show False
      by blast
  qed
  then show "\<exists>k. UnmarshalJSON m b = (Some (NumError ''Atoi'' (unquoted b) k), m)"
    by (rule UnmarshalJSON_rejects)
next
  assume "fst (UnmarshalJSON m a) = None"
  then show "base10_integer (unquoted a)"
    by (rule UnmarshalJSON_accepts)
next
  assume "- (2 ^ 63) \<le> T \<and> T < 0"
  then show "UnmarshalJSON m (Itoa T) = UnmarshalJSON m (quoted (Itoa T))"
    by (simp add: UnmarshalJSON_quoted)
next
  assume "- (2 ^ 63) \<le> T \<and> T < 0"
  then have r: "- (2 ^ 63) \<le> T" "T < 2 ^ 63"
    by simp_all
  show "fst (UnmarshalJSON m (Itoa T)) = None"
    by (simp add: UnmarshalJSON_Itoa [OF r])
next
  assume "- (2 ^ 63) \<le> T \<and> T < 0"
  then have r: "- (2 ^ 63) \<le> T" "T < 2 ^ 63"
    by simp_all
  show "sint (Time_Unix (Time (snd (UnmarshalJSON m (Itoa T))))) = T"
    by (simp add: UnmarshalJSON_Itoa [OF r] Time_Unix_time_Unix sint_of_int64 [OF r])
qed

theorem fraction_or_exponent_rejected_witness:
  "CHR ''.'' \<in> set ''1543600800.5''
     \<and> (\<exists>k. UnmarshalJSON zero_caTime ''1543600800.5'' = (Some (NumError ''Atoi'' ''1543600800.5'' k), zero_caTime))
     \<and> CHR ''e'' \<in> set ''1.5436008e9''
     \<and> (\<exists>k. UnmarshalJSON zero_caTime ''1.5436008e9'' = (Some (NumError ''Atoi'' ''1.5436008e9'' k), zero_caTime))
     \<and> fst (UnmarshalJSON zero_caTime ''+15'') = None
     \<and> base10_integer ''+15''
     \<and> - (2 ^ 63) \<le> (- 86400 :: int) \<and> (- 86400 :: int) < 0
     \<and> Itoa (- 86400) = ''-86400''
     \<and> fst (UnmarshalJSON zero_caTime ''-86400'') = None
     \<and> sint (Time_Unix (Time (snd (UnmarshalJSON zero_caTime ''-86400'')))) = - 86400"
proof -
  have u1: "unquoted ''1543600800.5'' = ''1543600800.5''"
    by (simp add: unquoted_eval)
  have u2: "unquoted ''1.5436008e9'' = ''1.5436008e9''"
    by (simp add: unquoted_eval)
  have u3: "unquoted ''+15'' = ''+15''"
    by (simp add: unquoted_eval)
  have a3: "fst (UnmarshalJSON zero_caTime ''+15'') = None"
    by (simp add: UnmarshalJSON_unquoted u3 Atoi_def)
  have i: "Itoa (- 86400) = ''-86400''"
    by (simp add: Itoa_def digits10.simps digit_chars)
  have r: "- (2 ^ 63) \<le> (- 86400 :: int) \<and> (- 86400 :: int) < 0"
    by simp
  from fraction_or_exponent_rejected [of "''1543600800.5''" zero_caTime "''+15''" "- 86400"]
       fraction_or_exponent_rejected [of "''1.5436008e9''" zero_caTime "''+15''" "- 86400"]
       a3 r
  show ?thesis
    by (simp add: u1 u2 u3 i)
qed

section \<open>Properties of the session client\<close>

lemma issued_self: "issued api api = []"
  by (simp add: issued_def)

text \<open>
  Claim C7. Listing the incoming requests with an empty session token returns the error
  \<open>no logon key exists\<close> (the client's not-authenticated condition) with the zero
  response, issues no request through the HTTP client and leaves the session as it was.
\<close>

theorem incoming_requests_without_token:
  assumes "LogonKey api = []"
  shows "fst (IncomingRequests l api)
           = (zero_caIncomingRequestsResponse, Some (Errorf ''no logon key exists'' []))
       \<and> issued api (snd (IncomingRequests l api)) = []
       \<and> snd (IncomingRequests l api) = api"
  using assms by (simp add: IncomingRequests_def issued_self)

text \<open>With a token and a URL that parses, the same operation does issue one request.\<close>

lemma incoming_requests_with_token:
  assumes "LogonKey api \<noteq> []" and "url_ok l (Base api @ ''/PasswordVault/API/IncomingRequests'')"
  shows "length (issued api (snd (IncomingRequests l api))) = 1"
  using assms
  by (simp add: IncomingRequests_def http_NewRequest_def Let_def Client_Do_def issued_def
        split: sum.splits prod.splits)

theorem incoming_requests_without_token_witness:
  "LogonKey fresh_api = []
     \<and> fst (IncomingRequests sample_lib fresh_api)
         = (zero_caIncomingRequestsResponse, Some (Errorf ''no logon key exists'' []))
     \<and> Sent (Client (snd (IncomingRequests sample_lib fresh_api))) = []"
proof -
  have k: "LogonKey fresh_api = []"
    by (simp add: fresh_api_def new_caAPI_def)
  have s: "Sent (Client fresh_api) = []"
    by (simp add: fresh_api_def new_caAPI_def sample_Client_def)
  from incoming_requests_without_token [OF k, of sample_lib] k s show ?thesis
    by simp
qed


lemmas Login_unfold = Login_def json_Marshal_caLogonRequest_def Client_Post_def http_NewRequest_def
  Client_Do_def Header_Set_def issued_def answer_def Let_def



text \<open>No failing \<^verbatim>\<open>Login\<close> touches the token.\<close>

lemma Login_failure_keeps_token:
  "fst (Login l api username password) \<noteq> None \<Longrightarrow>
     LogonKey (snd (Login l api username password)) = LogonKey api"
  by (auto simp add: Login_unfold split: if_splits sum.splits prod.splits option.splits)


lemmas json_eval = json_Unmarshal_def decode_struct_def decode_slice_def decode_string_def
  decode_int_def into_def findField_def typeFields_def isExported_def jsonName_def saveError_def

lemmas sample_eval = sample_lib_def sample_scan_def sample_url_ok_def sample_RoundTrip_def
  sample_Client_def sample_base_def fresh_api_def logged_in_api_def stale_api_def new_caAPI_def
  body_logon_ok_def body_logon_denied_def body_logon_mistyped_def body_my_requests_def
  body_my_requests_error_def body_confirm_error_def body_incoming_def my_request_json_def
  incoming_request_def
  empty_console_def











lemma sample_url_ok: "url_ok sample_lib url"
  by (simp add: sample_lib_def sample_url_ok_def)

lemma sample_answer:
  "answer fresh_api req = sample_RoundTrip [] req"
  "answer logged_in_api req = sample_RoundTrip [] req"
  "answer stale_api req = sample_RoundTrip [] req"
  by (simp_all add: answer_def logged_in_api_def stale_api_def fresh_api_def new_caAPI_def sample_Client_def)




lemmas Logout_unfold = Logout_def http_NewRequest_def Client_Do_def Header_Add_def Let_def

text \<open>
  Claim C4, as amended. \<^verbatim>\<open>Logout\<close> fails with \<open>no logon key exists - unable to logout\<close>
  (the client's not-authenticated condition) exactly when the session token is empty;
  that covers the session \<^verbatim>\<open>main\<close> creates, before any \<^verbatim>\<open>Login\<close>. \<^verbatim>\<open>Logout\<close>
  never changes the token, so after a \<^verbatim>\<open>Logout\<close> with a token a second \<^verbatim>\<open>Logout\<close>
  is not stopped by the guard.
\<close>

theorem logout_guard:
  "(fst (Logout l api) = Some (Errorf ''no logon key exists - unable to logout'' [])) = (LogonKey api = [])
   \<and> LogonKey (snd (Logout l api)) = LogonKey api
   \<and> fst (Logout l (new_caAPI base client)) = Some (Errorf ''no logon key exists - unable to logout'' [])
   \<and> (LogonKey api \<noteq> [] \<longrightarrow>
        fst (Logout l (snd (Logout l api))) \<noteq> Some (Errorf ''no logon key exists - unable to logout'' []))"
  by (auto simp add: Logout_unfold new_caAPI_def split: if_splits sum.splits prod.splits)

theorem logout_guard_witness:
  "LogonKey logged_in_api \<noteq> []
   \<and> fst (Logout sample_lib logged_in_api) \<noteq> Some (Errorf ''no logon key exists - unable to logout'' [])
   \<and> fst (Logout sample_lib (snd (Logout sample_lib logged_in_api)))
       \<noteq> Some (Errorf ''no logon key exists - unable to logout'' [])
   \<and> fst (Logout sample_lib fresh_api) = Some (Errorf ''no logon key exists - unable to logout'' [])"
proof -
  have k: "LogonKey logged_in_api \<noteq> []"
    by (simp add: logged_in_api_def)
  from logout_guard [of sample_lib logged_in_api sample_base sample_Client] k show ?thesis
    by (simp add: fresh_api_def)
qed

text \<open>
  Claim C4 as stated (the guard covers a second \<^verbatim>\<open>Logout\<close>) fails on the sample vault:
  the first \<^verbatim>\<open>Logout\<close> succeeds and keeps the token, the second one succeeds as well
  and sends a second request.
\<close>

theorem logout_twice_counterexample:
  "fst (Logout sample_lib logged_in_api) = None
   \<and> LogonKey (snd (Logout sample_lib logged_in_api)) = ''AAEAAA''
   \<and> fst (Logout sample_lib (snd (Logout sample_lib logged_in_api))) = None
   \<and> length (Sent (Client (snd (Logout sample_lib (snd (Logout sample_lib logged_in_api)))))) = 2"
  by (simp add: Logout_unfold logged_in_api_def fresh_api_def new_caAPI_def sample_Client_def
        sample_url_ok sample_RoundTrip_def sample_base_def)






lemmas IncomingRequests_unfold = IncomingRequests_def http_NewRequest_def Client_Do_def Header_Add_def
  Query_Add_def Let_def

text \<open>
  The repository's test \<^verbatim>\<open>TestTimeUnMarshalling\<close> on the sample vault: an incoming
  request with \<open>AccessFrom\<close> bare, \<open>AccessTo\<close> quoted and \<open>LastUsedDate\<close> bare decodes to
  \<^verbatim>\<open>time.Unix\<close> of the three numbers.
\<close>

lemma sample_timestamps:
  "UnmarshalJSON zero_caTime ''1543388400'' = (None, \<lparr>Time = time_Unix 1543388400\<rparr>)"
  "UnmarshalJSON zero_caTime (quoted ''1543600800'') = (None, \<lparr>Time = time_Unix 1543600800\<rparr>)"
  "UnmarshalJSON zero_caTime ''1543404976'' = (None, \<lparr>Time = time_Unix 1543404976\<rparr>)"
  by (simp_all add: UnmarshalJSON_unquoted unquoted_eval Atoi_def zero_caTime_def)

lemma sample_total: "ParseInt ''1'' = (1, None)"
  by (simp add: ParseInt_def ParseUint_def digitVal_def cutoff10_val maxUint64_val Let_def
        word_le_nat_alt word_less_nat_alt)

lemma sample_scan_incoming: "json_scan sample_lib body_incoming = Some incoming_json"
  by (simp add: sample_lib_def sample_scan_def body_logon_ok_def body_logon_denied_def
        body_logon_mistyped_def body_my_requests_def body_my_requests_error_def
        body_confirm_error_def body_incoming_def)

lemma sample_incoming_decodes:
  "snd (json_Unmarshal sample_lib decode_caIncomingRequestsResponse body_incoming
          zero_caIncomingRequestsResponse) = None
   \<and> map (\<lambda>r. (RequestID r, Time (AccessFrom r), Time (AccessTo r),
                Time (LastUsedDate (caIncomingRequest_AccountDetails.Properties
                                      (caIncomingRequest.AccountDetails r)))))
         (caIncomingRequestsResponse.IncomingRequests
            (fst (json_Unmarshal sample_lib decode_caIncomingRequestsResponse
                    body_incoming zero_caIncomingRequestsResponse)))
     = [(''7'', time_Unix 1543388400, time_Unix 1543600800, time_Unix 1543404976)]"
  by (simp add: json_eval sample_scan_incoming incoming_json_def
        decode_caIncomingRequestsResponse_def fields_caIncomingRequestsResponse_def
        decode_caIncomingRequest_def fields_caIncomingRequest_def
        fields_caIncomingRequest_AccountDetails_def fields_caIncomingRequest_Properties_def
        zero_caIncomingRequestsResponse_def zero_caIncomingRequest_def decode_caTime_def
        sample_timestamps sample_total)

lemma sample_incoming_requests:
  "fst (IncomingRequests sample_lib logged_in_api)
     = json_Unmarshal sample_lib decode_caIncomingRequestsResponse body_incoming
         zero_caIncomingRequestsResponse
   \<and> issued logged_in_api (snd (IncomingRequests sample_lib logged_in_api))
     = [\<lparr>Method = ''GET'', URL = sample_base @ ''/PasswordVault/API/IncomingRequests'',
         Query = [(''onlywaiting'', ''true''), (''expired'', ''false'')],
         Header = [(''Authorization'', ''AAEAAA'')], ReqBody = None\<rparr>]"
  by (simp add: IncomingRequests_unfold issued_def logged_in_api_def fresh_api_def new_caAPI_def
        sample_Client_def sample_RoundTrip_def sample_base_def
        sample_url_ok)

section \<open>Properties of the caller's own requests and of batch retrieval\<close>

text \<open>
  \<^verbatim>\<open>caMyRequestsResponse\<close> declares \<open>errorCode\<close> and \<open>errorMessage\<close> with a lower-case
  initial: they are not exported, \<^verbatim>\<open>encoding/json\<close> never stores into them, and the
  only field a key can select is \<open>MyRequests\<close>.
\<close>

lemma findField_caMyRequestsResponse:
  assumes "findField fields_caMyRequestsResponse key = Some (goName, tag, dec)"
  shows "errorCode (fst (dec j v sv)) = errorCode v \<and> errorMessage (fst (dec j v sv)) = errorMessage v"
proof -
  have t: "typeFields fields_caMyRequestsResponse =
      [(''MyRequests'', [],
         into caMyRequestsResponse.MyRequests (\<lambda>x v. v\<lparr>caMyRequestsResponse.MyRequests := x\<rparr>)
           (decode_slice ''[]main.caMyRequest'' decode_caMyRequest zero_caMyRequest))]"
    by (simp add: typeFields_def fields_caMyRequestsResponse_def isExported_def)
  from assms have "dec = into caMyRequestsResponse.MyRequests (\<lambda>x v. v\<lparr>caMyRequestsResponse.MyRequests := x\<rparr>)
           (decode_slice ''[]main.caMyRequest'' decode_caMyRequest zero_caMyRequest)"
    by (auto simp add: findField_def t split: option.splits if_splits)
  then show ?thesis
    by (simp add: into_def split: prod.splits)
qed

lemma decode_members_caMyRequestsResponse:
  "errorCode (fst (decode_members fields_caMyRequestsResponse kvs v sv)) = errorCode v
   \<and> errorMessage (fst (decode_members fields_caMyRequestsResponse kvs v sv)) = errorMessage v"
proof (induction kvs arbitrary: v sv)
  case Nil
  show ?case by simp
next
  case (Cons kv kvs)
  obtain key j where kv: "kv = (key, j)"
    by (cases kv)
  show ?case
  proof (cases "findField fields_caMyRequestsResponse key")
    case None
    with kv Cons.IH show ?thesis
      by simp
  next
    case (Some f)
    obtain goName tag dec where f: "f = (goName, tag, dec)"
      by (cases f)
    obtain v' sv' err where d: "dec j v sv = (v', sv', err)"
      by (cases "dec j v sv")
    from findField_caMyRequestsResponse [OF Some [unfolded f], of j v sv] d
    have p: "errorCode v' = errorCode v \<and> errorMessage v' = errorMessage v"
      by simp
    show ?thesis
    proof (cases err)
      case None
      with kv Some f d p Cons.IH [of v' sv'] show ?thesis
        by simp
    next
      case (Some e)
      with kv \<open>findField fields_caMyRequestsResponse key = Some f\<close> f d p show ?thesis
        by simp
    qed
  qed
qed

lemma json_Unmarshal_caMyRequestsResponse:
  "errorCode (fst (json_Unmarshal l decode_caMyRequestsResponse data v)) = errorCode v
   \<and> errorMessage (fst (json_Unmarshal l decode_caMyRequestsResponse data v)) = errorMessage v"
proof (cases "json_scan l data")
  case None
  then show ?thesis
    by (simp add: json_Unmarshal_def)
next
  case (Some j)
  have "errorCode (fst (decode_caMyRequestsResponse j v None)) = errorCode v
      \<and> errorMessage (fst (decode_caMyRequestsResponse j v None)) = errorMessage v"
    using decode_members_caMyRequestsResponse [of _ v None]
    by (cases j) (simp_all add: decode_caMyRequestsResponse_def decode_struct_def)
  with Some show ?thesis
    by (auto simp add: json_Unmarshal_def split: prod.splits option.splits)
qed

lemmas MyRequests_unfold = MyRequests_def http_NewRequest_def Client_Do_def Header_Set_def
  Query_Add_def Let_def

text \<open>
  So whenever the response of \<^verbatim>\<open>MyRequests\<close> is read and decodes, the operation
  succeeds with an empty \<open>errorCode\<close>, whatever error code the envelope carries.
\<close>

lemma MyRequests_decoded_always_succeeds:
  assumes "issued api (snd (MyRequests l api)) = [req]"
      and "answer api req = Inr resp"
      and "Body resp = Inr body"
      and "json_Unmarshal l decode_caMyRequestsResponse body zero_caMyRequestsResponse = (myReqs, None)"
  shows "fst (MyRequests l api) = (myReqs, None) \<and> errorCode myReqs = [] \<and> errorMessage myReqs = []"
proof -
  from json_Unmarshal_caMyRequestsResponse [of l body zero_caMyRequestsResponse] assms(4)
  have e: "errorCode myReqs = [] \<and> errorMessage myReqs = []"
    by (simp add: zero_caMyRequestsResponse_def)
  with assms show ?thesis
    by (auto simp add: MyRequests_unfold issued_def answer_def
          split: if_splits sum.splits prod.splits option.splits)
qed

lemma sample_my_requests_error_decodes:
  "json_Unmarshal sample_lib decode_caMyRequestsResponse body_my_requests_error zero_caMyRequestsResponse
     = (\<lparr>errorCode = [], errorMessage = [], caMyRequestsResponse.MyRequests = []\<rparr>, None)"
  by (simp add: json_eval sample_eval decode_caMyRequestsResponse_def fields_caMyRequestsResponse_def
        zero_caMyRequestsResponse_def foldName.simps toUpper_def)

text \<open>
  Claim C2, on the code. The sample vault answers a stale token with status 200 and an
  envelope whose \<open>ErrorCode\<close> is \<open>ITATS001E\<close>. \<^verbatim>\<open>MyRequests\<close> returns no error and
  an empty request sequence: the server's error code is lost.
\<close>

theorem my_requests_ignores_error_envelope:
  "map (answer stale_api) (issued stale_api (snd (MyRequests sample_lib stale_api)))
     = [Inr \<lparr>StatusCode = 200, Body = Inr body_my_requests_error\<rparr>]
   \<and> json_scan sample_lib body_my_requests_error
     = Some (JObject body_my_requests_error
               [(''ErrorCode'', JString (quoted ''ITATS001E'') ''ITATS001E''),
                (''ErrorMessage'', JString (quoted ''denied'') ''denied''),
                (''MyRequests'', JArray ''[]'' [])])
   \<and> fst (MyRequests sample_lib stale_api)
     = (\<lparr>errorCode = [], errorMessage = [], caMyRequestsResponse.MyRequests = []\<rparr>, None)"
proof -
  have i: "issued stale_api (snd (MyRequests sample_lib stale_api))
      = [\<lparr>Method = ''GET'', URL = sample_base @ ''/PasswordVault/API/MyRequests'',
          Query = [(''onlywaiting'', ''false''), (''expired'', ''false'')],
          Header = [(''Authorization'', ''expired'')], ReqBody = None\<rparr>]"
    by (simp add: MyRequests_unfold issued_def stale_api_def fresh_api_def new_caAPI_def
          sample_Client_def sample_url_ok split: sum.splits prod.splits option.splits)
  have a: "answer stale_api
      \<lparr>Method = ''GET'', URL = sample_base @ ''/PasswordVault/API/MyRequests'',
          Query = [(''onlywaiting'', ''false''), (''expired'', ''false'')],
          Header = [(''Authorization'', ''expired'')], ReqBody = None\<rparr>
      = Inr \<lparr>StatusCode = 200, Body = Inr body_my_requests_error\<rparr>"
    by (simp add: sample_answer sample_RoundTrip_def sample_base_def)
  have b: "Body \<lparr>StatusCode = 200, Body = Inr body_my_requests_error\<rparr> = Inr body_my_requests_error"
    by simp
  have j: "json_scan sample_lib body_my_requests_error
     = Some (JObject body_my_requests_error
               [(''ErrorCode'', JString (quoted ''ITATS001E'') ''ITATS001E''),
                (''ErrorMessage'', JString (quoted ''denied'') ''denied''),
                (''MyRequests'', JArray ''[]'' [])])"
    by (simp add: sample_lib_def sample_scan_def body_my_requests_error_def body_logon_ok_def
          body_logon_denied_def body_logon_mistyped_def body_my_requests_def body_incoming_def)
  from MyRequests_decoded_always_succeeds [OF i a b sample_my_requests_error_decodes] i a j
  show ?thesis
    by simp
qed

lemmas GetPassword_unfold = GetPassword_def http_NewRequest_def Client_Do_def Header_Set_def Let_def

text \<open>
  The loop of \<^verbatim>\<open>retrieve\<close> goes through the requests in order, a failing fetch does
  not stop it, and it writes nothing for a failing fetch and nothing to standard error.
\<close>

lemma retrieve_loop_append:
  "retrieve_loop l (xs @ ys) ca con =
     (case retrieve_loop l xs ca con of (ca', con') \<Rightarrow> retrieve_loop l ys ca' con')"
  by (induction xs arbitrary: ca con) (auto split: prod.splits option.splits)

lemma retrieve_loop_failure_silent:
  assumes "snd (fst (GetPassword l ca r)) \<noteq> None"
  shows "retrieve_loop l (r # rs) ca con = retrieve_loop l rs (snd (GetPassword l ca r)) con"
  using assms by (auto split: prod.splits option.splits)

lemma retrieve_loop_stderr: "stderr (snd (retrieve_loop l rs ca con)) = stderr con"
  by (induction rs arbitrary: ca con) (auto split: prod.splits option.splits)

lemma sample_my_requests_decodes:
  "json_Unmarshal sample_lib decode_caMyRequestsResponse body_my_requests zero_caMyRequestsResponse
     = (\<lparr>errorCode = [], errorMessage = [],
         caMyRequestsResponse.MyRequests =
           [\<lparr>Status = 0, StatusTitle = [],
             caMyRequest.AccountDetails =
               \<lparr>AccountID = ''11'',
                caMyRequest_AccountDetails.Properties = \<lparr>caMyRequest_Properties.Name = ''root@db1''\<rparr>\<rparr>\<rparr>,
            \<lparr>Status = 0, StatusTitle = [],
             caMyRequest.AccountDetails =
               \<lparr>AccountID = ''22'',
                caMyRequest_AccountDetails.Properties = \<lparr>caMyRequest_Properties.Name = ''root@db2''\<rparr>\<rparr>\<rparr>]\<rparr>,
        None)"
  by (simp add: json_eval sample_eval decode_caMyRequestsResponse_def fields_caMyRequestsResponse_def
        zero_caMyRequestsResponse_def decode_caMyRequest_def fields_caMyRequest_def
        fields_caMyRequest_AccountDetails_def fields_caMyRequest_Properties_def zero_caMyRequest_def)

text \<open>
  Claim C8, on the code. On the sample vault the caller has two requests; the fetch for
  account 11 fails in transport. \<^verbatim>\<open>retrieve\<close> still fetches account 22 and prints its
  credential, and that line is all it writes: nothing on standard output or standard error
  reports the failure of the first fetch.
\<close>

theorem retrieve_skips_failed_fetch_silently:
  "fst (retrieve sample_lib logged_in_api empty_console) = None
   \<and> map URL (issued logged_in_api (fst (snd (retrieve sample_lib logged_in_api empty_console))))
     = [sample_base @ ''/PasswordVault/API/MyRequests'',
        sample_base @ ''/PasswordVault/WebServices/PIMServices.svc/Accounts/11/Credentials'',
        sample_base @ ''/PasswordVault/WebServices/PIMServices.svc/Accounts/22/Credentials'']
   \<and> sample_RoundTrip [] \<lparr>Method = ''GET'',
         URL = sample_base @ ''/PasswordVault/WebServices/PIMServices.svc/Accounts/11/Credentials'',
         Query = [], Header = [(''Authorization'', ''AAEAAA'')], ReqBody = None\<rparr>
     = Inl ''connection reset by peer''
   \<and> snd (snd (retrieve sample_lib logged_in_api empty_console))
     = \<lparr>stdout = [Printf (''%s = %s'' @ [CHR 0x0A]) [S ''root@db2'', S ''s3cret'']], stderr = []\<rparr>"
proof -
  have m: "MyRequests sample_lib logged_in_api =
     ((fst (json_Unmarshal sample_lib decode_caMyRequestsResponse body_my_requests zero_caMyRequestsResponse), None),
      logged_in_api\<lparr>Client := \<lparr>RoundTrip = sample_RoundTrip,
         Sent = [\<lparr>Method = ''GET'', URL = sample_base @ ''/PasswordVault/API/MyRequests'',
                  Query = [(''onlywaiting'', ''false''), (''expired'', ''false'')],
                  Header = [(''Authorization'', ''AAEAAA'')], ReqBody = None\<rparr>]\<rparr>\<rparr>)"
    by (simp add: MyRequests_unfold sample_url_ok sample_my_requests_decodes
          logged_in_api_def fresh_api_def new_caAPI_def sample_Client_def sample_RoundTrip_def
          sample_base_def)
  show ?thesis
    by (simp add: retrieve_def m sample_my_requests_decodes)
       (simp add: GetPassword_unfold sample_url_ok issued_def logged_in_api_def fresh_api_def new_caAPI_def
          sample_Client_def sample_RoundTrip_def sample_base_def empty_console_def)
qed

end
